theory Spec2Isabelle
  imports Main "HOL-Library.Word" "HOL-Library.Signed_Division" "HOL-Library.Sublist"
begin

unbundle bit_operations_syntax

section \<open>The KT0913 AM/FM receiver driver (radio-kt0913.c)\<close>

text \<open>
  A shallow embedding of the register protocol and the tuning logic of the driver.
  C's \<^verbatim>\<open>unsigned int\<close> and \<^verbatim>\<open>u32\<close> are \<open>32 word\<close>, \<^verbatim>\<open>s32\<close> is
  \<open>32 word\<close> read through \<open>sint\<close>, a register address is \<open>8 word\<close> and a register
  value on the bus is \<open>16 word\<close> (\<^verbatim>\<open>reg_bits = 8\<close>, \<^verbatim>\<open>val_bits = 16\<close> in
  \<^verbatim>\<open>kt0913_regmap_config\<close>). A function returning a negative errno returns
  \<open>Inl\<close> of the errno; \<^verbatim>\<open>return 0\<close> is \<open>Inr\<close>. The leading underscores of
  \<^verbatim>\<open>__kt0913_...\<close> are dropped. Diagnostics written with \<^verbatim>\<open>printk\<close> are not
  part of the model.
\<close>

subsection \<open>Errors and the state-passing style\<close>

datatype errno = EINVAL | EIO | ENODEV | ENOMEM | ENXIO | EREMOTEIO | ETIMEDOUT

text \<open>\<^verbatim>\<open>ret = f(...); if (ret) return ret;\<close> followed by the rest of the body.\<close>

definition bind_ret ::
  "('s \<Rightarrow> (errno + 'a) \<times> 's) \<Rightarrow> ('a \<Rightarrow> 's \<Rightarrow> (errno + 'b) \<times> 's) \<Rightarrow> 's \<Rightarrow> (errno + 'b) \<times> 's"
where
  "bind_ret m k s = (case m s of (Inl e, s') \<Rightarrow> (Inl e, s') | (Inr x, s') \<Rightarrow> k x s')"

definition return_ret :: "'a \<Rightarrow> 's \<Rightarrow> (errno + 'a) \<times> 's" where
  "return_ret x s = (Inr x, s)"

subsection \<open>Register addresses, masks and constants\<close>

abbreviation (input) KT0913_REG_CHIP_ID :: "8 word" where "KT0913_REG_CHIP_ID \<equiv> 0x01"
abbreviation (input) KT0913_REG_SEEK :: "8 word" where "KT0913_REG_SEEK \<equiv> 0x02"
abbreviation (input) KT0913_REG_TUNE :: "8 word" where "KT0913_REG_TUNE \<equiv> 0x03"
abbreviation (input) KT0913_REG_VOLUME :: "8 word" where "KT0913_REG_VOLUME \<equiv> 0x04"
abbreviation (input) KT0913_REG_DSPCFGA :: "8 word" where "KT0913_REG_DSPCFGA \<equiv> 0x05"
abbreviation (input) KT0913_REG_LOCFGA :: "8 word" where "KT0913_REG_LOCFGA \<equiv> 0x0A"
abbreviation (input) KT0913_REG_LOCFGC :: "8 word" where "KT0913_REG_LOCFGC \<equiv> 0x0C"
abbreviation (input) KT0913_REG_RXCFG :: "8 word" where "KT0913_REG_RXCFG \<equiv> 0x0F"
abbreviation (input) KT0913_REG_STATUSA :: "8 word" where "KT0913_REG_STATUSA \<equiv> 0x12"
abbreviation (input) KT0913_REG_AMSYSCFG :: "8 word" where "KT0913_REG_AMSYSCFG \<equiv> 0x16"
abbreviation (input) KT0913_REG_AMCHAN :: "8 word" where "KT0913_REG_AMCHAN \<equiv> 0x17"
abbreviation (input) KT0913_REG_GPIOCFG :: "8 word" where "KT0913_REG_GPIOCFG \<equiv> 0x1D"
abbreviation (input) KT0913_REG_AMDSP :: "8 word" where "KT0913_REG_AMDSP \<equiv> 0x22"
abbreviation (input) KT0913_REG_AMSTATUSA :: "8 word" where "KT0913_REG_AMSTATUSA \<equiv> 0x24"
abbreviation (input) KT0913_REG_SOFTMUTE :: "8 word" where "KT0913_REG_SOFTMUTE \<equiv> 0x2E"
abbreviation (input) KT0913_REG_AMCFG :: "8 word" where "KT0913_REG_AMCFG \<equiv> 0x33"
abbreviation (input) KT0913_REG_AFC :: "8 word" where "KT0913_REG_AFC \<equiv> 0x3C"

abbreviation (input) KT0913_TUNE_FMTUNE_ON :: "32 word" where "KT0913_TUNE_FMTUNE_ON \<equiv> 0x8000"
abbreviation (input) KT0913_TUNE_FMCHAN_MASK :: "32 word" where "KT0913_TUNE_FMCHAN_MASK \<equiv> 0x0FFF"

abbreviation (input) KT0913_VOLUME_DMUTE_MASK :: "32 word" where "KT0913_VOLUME_DMUTE_MASK \<equiv> 0x2000"
abbreviation (input) KT0913_VOLUME_DMUTE_ON :: "32 word" where "KT0913_VOLUME_DMUTE_ON \<equiv> 0x0000"
abbreviation (input) KT0913_VOLUME_DMUTE_OFF :: "32 word" where "KT0913_VOLUME_DMUTE_OFF \<equiv> 0x2000"
abbreviation (input) KT0913_VOLUME_DE_MASK :: "32 word" where "KT0913_VOLUME_DE_MASK \<equiv> 0x0800"
abbreviation (input) KT0913_VOLUME_DE_75US :: "32 word" where "KT0913_VOLUME_DE_75US \<equiv> 0x0000"
abbreviation (input) KT0913_VOLUME_DE_50US :: "32 word" where "KT0913_VOLUME_DE_50US \<equiv> 0x0800"
abbreviation (input) KT0913_VOLUME_POP_MASK :: "32 word" where "KT0913_VOLUME_POP_MASK \<equiv> 0x30"
abbreviation (input) KT0913_VOLUME_POP_SHIFT :: nat where "KT0913_VOLUME_POP_SHIFT \<equiv> 4"

abbreviation (input) KT0913_LOCFG_CAMPUSBAND_EN_MASK :: "32 word" where
  "KT0913_LOCFG_CAMPUSBAND_EN_MASK \<equiv> 0x0008"
abbreviation (input) KT0913_LOCFG_CAMPUSBAND_EN_ON :: "32 word" where
  "KT0913_LOCFG_CAMPUSBAND_EN_ON \<equiv> 0x0008"

abbreviation (input) KT0913_RXCFGA_VOLUME_MASK :: "32 word" where "KT0913_RXCFGA_VOLUME_MASK \<equiv> 0x001F"

abbreviation (input) KT0913_STATUSA_FMRSSI_MASK :: "32 word" where "KT0913_STATUSA_FMRSSI_MASK \<equiv> 0xF8"
abbreviation (input) KT0913_STATUSA_FMRSSI_SHIFT :: nat where "KT0913_STATUSA_FMRSSI_SHIFT \<equiv> 3"

abbreviation (input) KT0913_AMCHAN_AMTUNE_ON :: "32 word" where "KT0913_AMCHAN_AMTUNE_ON \<equiv> 0x8000"
abbreviation (input) KT0913_AMCHAN_AMCHAN_MASK :: "32 word" where "KT0913_AMCHAN_AMCHAN_MASK \<equiv> 0x7FF"

abbreviation (input) KT0913_AMSYSCFG_AM_FM_MASK :: "32 word" where "KT0913_AMSYSCFG_AM_FM_MASK \<equiv> 0x8000"
abbreviation (input) KT0913_AMSYSCFG_AM_FM_AM :: "32 word" where "KT0913_AMSYSCFG_AM_FM_AM \<equiv> 0x8000"
abbreviation (input) KT0913_AMSYSCFG_AM_FM_FM :: "32 word" where "KT0913_AMSYSCFG_AM_FM_FM \<equiv> 0x0000"
abbreviation (input) KT0913_AMSYSCFG_REFCLK_MASK :: "32 word" where "KT0913_AMSYSCFG_REFCLK_MASK \<equiv> 0x0F00"
abbreviation (input) KT0913_AMSYSCFG_REFCLK_SHIFT :: nat where "KT0913_AMSYSCFG_REFCLK_SHIFT \<equiv> 8"
abbreviation (input) KT0913_AMSYSCFG_AU_GAIN_MASK :: "32 word" where "KT0913_AMSYSCFG_AU_GAIN_MASK \<equiv> 0x00C0"
abbreviation (input) KT0913_AMSYSCFG_AU_GAIN_6DB :: "32 word" where "KT0913_AMSYSCFG_AU_GAIN_6DB \<equiv> 0x0040"
abbreviation (input) KT0913_AMSYSCFG_AU_GAIN_3DB :: "32 word" where "KT0913_AMSYSCFG_AU_GAIN_3DB \<equiv> 0x0000"
abbreviation (input) KT0913_AMSYSCFG_AU_GAIN_0DB :: "32 word" where "KT0913_AMSYSCFG_AU_GAIN_0DB \<equiv> 0x00C0"
abbreviation (input) KT0913_AMSYSCFG_AU_GAIN_MIN_3DB :: "32 word" where
  "KT0913_AMSYSCFG_AU_GAIN_MIN_3DB \<equiv> 0x0080"

abbreviation (input) KT0913_AMSTATUSA_AMRSSI_MASK :: "32 word" where
  "KT0913_AMSTATUSA_AMRSSI_MASK \<equiv> 0x1F00"
abbreviation (input) KT0913_AMSTATUSA_AMRSSI_SHIFT :: nat where "KT0913_AMSTATUSA_AMRSSI_SHIFT \<equiv> 8"

abbreviation (input) V4L2_KHZ_FREQ_MUL :: "32 word" where "V4L2_KHZ_FREQ_MUL \<equiv> 16"
abbreviation (input) KT0913_FMCHAN_MUL :: "32 word" where "KT0913_FMCHAN_MUL \<equiv> 50"
abbreviation (input) KT0913_FM_RANGE_LOW_NO_CAMPUS :: "32 word" where
  "KT0913_FM_RANGE_LOW_NO_CAMPUS \<equiv> 64000"
abbreviation (input) KT0913_FM_RANGE_LOW_CAMPUS :: "32 word" where "KT0913_FM_RANGE_LOW_CAMPUS \<equiv> 32000"
abbreviation (input) KT0913_FM_RANGE_HIGH :: "32 word" where "KT0913_FM_RANGE_HIGH \<equiv> 110000"
abbreviation (input) KT0913_AM_RANGE_LOW :: "32 word" where "KT0913_AM_RANGE_LOW \<equiv> 500"
abbreviation (input) KT0913_AM_RANGE_HIGH :: "32 word" where "KT0913_AM_RANGE_HIGH \<equiv> 1710"

text \<open>
  Constants of the kernel's V4L2 headers that the driver names:
  \<^verbatim>\<open>V4L2_TUNER_RADIO\<close> is 1 in \<^verbatim>\<open>enum v4l2_tuner_type\<close>;
  \<^verbatim>\<open>V4L2_DEEMPHASIS_50_uS\<close> is 1 and \<^verbatim>\<open>V4L2_DEEMPHASIS_75_uS\<close> is 2.
\<close>

abbreviation (input) V4L2_TUNER_RADIO :: "32 word" where "V4L2_TUNER_RADIO \<equiv> 1"
abbreviation (input) V4L2_DEEMPHASIS_50_uS :: "32 word" where "V4L2_DEEMPHASIS_50_uS \<equiv> 1"
abbreviation (input) V4L2_DEEMPHASIS_75_uS :: "32 word" where "V4L2_DEEMPHASIS_75_uS \<equiv> 2"

subsection \<open>The register transport and the regmap layer\<close>

text \<open>
  Modelled from the spec: the register transport (the I2C bus and the chip behind it) is not
  part of the source. Following the transport contract, one transfer addresses exactly one
  16-bit register and either succeeds or fails with an error. The chip is a register file:
  a read returns the value last written. \<open>trace\<close> lists every transfer attempted with its
  outcome, oldest first, and \<open>faults\<close> gives the outcome of the transfers still to come
  (\<open>None\<close>: the transfer succeeds; exhausted: every further transfer succeeds).
\<close>

datatype bus_op = Bus_read "8 word" | Bus_write "8 word" "16 word"

record i2c_regmap =
  regs :: "8 word \<Rightarrow> 16 word"
  trace :: "(bus_op \<times> errno option) list"
  faults :: "errno option list"

definition bus_outcome :: "i2c_regmap \<Rightarrow> errno option" where
  "bus_outcome rm = (case faults rm of [] \<Rightarrow> None | out # _ \<Rightarrow> out)"

definition bus_read :: "8 word \<Rightarrow> i2c_regmap \<Rightarrow> (errno + 16 word) \<times> i2c_regmap" where
  "bus_read reg rm =
     (let out = bus_outcome rm;
          rm' = rm\<lparr>trace := trace rm @ [(Bus_read reg, out)], faults := tl (faults rm)\<rparr>
      in case out of
           Some e \<Rightarrow> (Inl e, rm')
         | None \<Rightarrow> (Inr (regs rm reg), rm'))"

definition bus_write :: "8 word \<Rightarrow> 16 word \<Rightarrow> i2c_regmap \<Rightarrow> (errno + unit) \<times> i2c_regmap" where
  "bus_write reg v rm =
     (let out = bus_outcome rm;
          rm' = rm\<lparr>trace := trace rm @ [(Bus_write reg v, out)], faults := tl (faults rm)\<rparr>
      in case out of
           Some e \<Rightarrow> (Inl e, rm')
         | None \<Rightarrow> (Inr (), rm'\<lparr>regs := (regs rm)(reg := v)\<rparr>))"

text \<open>
  \<^verbatim>\<open>kt0913_regmap_all_registers_range\<close>, the \<^verbatim>\<open>yes_ranges\<close> of the volatile table
  of \<^verbatim>\<open>kt0913_regmap_config\<close>.
\<close>

definition kt0913_regmap_all_registers_range :: "(8 word \<times> 8 word) list" where
  "kt0913_regmap_all_registers_range =
     [(0x01, 0x05), (0x0A, 0x0A), (0x0C, 0x0C), (0x0F, 0x0F), (0x12, 0x14), (0x16, 0x18),
      (0x1D, 0x1D), (0x22, 0x22), (0x24, 0x25), (0x2E, 0x2F), (0x30, 0x34), (0x3A, 0x3A),
      (0x3C, 0x3C)]"

definition regmap_reg_in_ranges :: "8 word \<Rightarrow> (8 word \<times> 8 word) list \<Rightarrow> bool" where
  "regmap_reg_in_ranges reg ranges = list_ex (\<lambda>(lo, hi). lo \<le> reg \<and> reg \<le> hi) ranges"

text \<open>
  Modelled from the spec: the kernel's regmap layer is not part of the source. The model
  follows the RegisterCache operations \<open>read\<close>, \<open>write\<close>, \<open>update_bits\<close> and
  \<open>write_sequence\<close> as the source's \<^verbatim>\<open>kt0913_regmap_config\<close> sets them up. The
  configuration has no read or write table, so a register is refused, before it reaches
  the bus, only when it lies above \<^verbatim>\<open>max_register\<close>. Every register the driver names
  is in the volatile table, so no read is served from the cache and each access is one bus
  transfer. \<open>update_bits\<close> reads the register and writes it back only when the value
  changes; \<open>write_sequence\<close> writes in the order of the list and stops at the first
  failure. A value is an \<^verbatim>\<open>unsigned int\<close> of which the low 16 bits travel.
\<close>

definition regmap_read :: "8 word \<Rightarrow> i2c_regmap \<Rightarrow> (errno + 32 word) \<times> i2c_regmap" where
  "regmap_read reg rm =
     (if reg > KT0913_REG_AFC then (Inl EIO, rm)
      else bind_ret (bus_read reg) (\<lambda>v. return_ret (ucast v)) rm)"

definition regmap_write :: "8 word \<Rightarrow> 32 word \<Rightarrow> i2c_regmap \<Rightarrow> (errno + unit) \<times> i2c_regmap" where
  "regmap_write reg val rm =
     (if reg > KT0913_REG_AFC then (Inl EIO, rm)
      else bus_write reg (ucast val) rm)"

definition regmap_update_bits ::
  "8 word \<Rightarrow> 32 word \<Rightarrow> 32 word \<Rightarrow> i2c_regmap \<Rightarrow> (errno + unit) \<times> i2c_regmap"
where
  "regmap_update_bits reg msk val =
     bind_ret (regmap_read reg) (\<lambda>orig.
       let tmp = (orig AND NOT msk) OR (val AND msk)
       in if tmp \<noteq> orig then regmap_write reg tmp else return_ret ())"

fun regmap_multi_reg_write ::
  "(8 word \<times> 32 word) list \<Rightarrow> i2c_regmap \<Rightarrow> (errno + unit) \<times> i2c_regmap"
where
  "regmap_multi_reg_write [] rm = (Inr (), rm)"
| "regmap_multi_reg_write ((reg, val) # rest) rm =
     bind_ret (regmap_write reg val) (\<lambda>_. regmap_multi_reg_write rest) rm"

subsection \<open>The device\<close>

text \<open>\<^verbatim>\<open>enum { BAND_FM, BAND_FM_CAMUS, BAND_AM }\<close>\<close>

datatype band = BAND_FM | BAND_FM_CAMUS | BAND_AM

text \<open>
  \<^verbatim>\<open>struct kt0913_device\<close>: the fields the register protocol uses. The probe allocates
  it zeroed, so the band starts as \<open>BAND_FM\<close>.
\<close>

record kt0913_device =
  band :: band
  audio_anti_pop :: "32 word"
  refclock_val :: "32 word"
  regmap :: i2c_regmap

text \<open>A call on \<^verbatim>\<open>radio->regmap\<close>.\<close>

definition via_regmap ::
  "(i2c_regmap \<Rightarrow> (errno + 'a) \<times> i2c_regmap) \<Rightarrow> kt0913_device \<Rightarrow> (errno + 'a) \<times> kt0913_device"
where
  "via_regmap m radio = (case m (regmap radio) of (r, rm') \<Rightarrow> (r, radio\<lparr>regmap := rm'\<rparr>))"

text \<open>\<^verbatim>\<open>kt0913_init_regs_to_defaults\<close>\<close>

definition kt0913_init_regs_to_defaults :: "(8 word \<times> 32 word) list" where
  "kt0913_init_regs_to_defaults =
     [(KT0913_REG_RXCFG, 0x881F),
      (KT0913_REG_SEEK, 0x000B),
      (KT0913_REG_DSPCFGA, 0x1000),
      (KT0913_REG_LOCFGA, 0x0100),
      (KT0913_REG_LOCFGC, 0x0024),
      (KT0913_REG_AMSYSCFG, 0x0002),
      (KT0913_REG_AMCHAN, 0x01F8),
      (KT0913_REG_GPIOCFG, 0x0000),
      (KT0913_REG_AMDSP, 0xAFC4),
      (KT0913_REG_SOFTMUTE, 0x0010),
      (KT0913_REG_AMCFG, 0x1401),
      (KT0913_REG_AMCFG, 0x4050),
      (KT0913_REG_TUNE, 0x86B8),
      (KT0913_REG_VOLUME, 0xE080)]"

text \<open>
  \<^verbatim>\<open>kt0913_bands\<close>, indexed by the band: the V4L2 index and the frequency range in
  V4L2 units (kHz times 16).
\<close>

datatype modulation = V4L2_BAND_MODULATION_FM | V4L2_BAND_MODULATION_AM

record v4l2_frequency_band =
  index :: "32 word"
  rangelow :: "32 word"
  rangehigh :: "32 word"
  modulation :: modulation

fun kt0913_bands :: "band \<Rightarrow> v4l2_frequency_band" where
  "kt0913_bands BAND_FM =
     \<lparr>index = 0,
      rangelow = KT0913_FM_RANGE_LOW_NO_CAMPUS * V4L2_KHZ_FREQ_MUL,
      rangehigh = KT0913_FM_RANGE_HIGH * V4L2_KHZ_FREQ_MUL,
      modulation = V4L2_BAND_MODULATION_FM\<rparr>"
| "kt0913_bands BAND_FM_CAMUS =
     \<lparr>index = 0,
      rangelow = KT0913_FM_RANGE_LOW_CAMPUS * V4L2_KHZ_FREQ_MUL,
      rangehigh = KT0913_FM_RANGE_HIGH * V4L2_KHZ_FREQ_MUL,
      modulation = V4L2_BAND_MODULATION_FM\<rparr>"
| "kt0913_bands BAND_AM =
     \<lparr>index = 1,
      rangelow = KT0913_AM_RANGE_LOW * V4L2_KHZ_FREQ_MUL,
      rangehigh = KT0913_AM_RANGE_HIGH * V4L2_KHZ_FREQ_MUL,
      modulation = V4L2_BAND_MODULATION_AM\<rparr>"

subsection \<open>Signed division\<close>

text \<open>C's division of \<^verbatim>\<open>s32\<close> values truncates toward zero.\<close>

definition s32_div :: "32 word \<Rightarrow> 32 word \<Rightarrow> 32 word" where
  "s32_div a b = word_of_int (sint a sdiv sint b)"

subsection \<open>Frequency conversion\<close>

definition khz_to_v4l2_freq :: "32 word \<Rightarrow> 32 word" where
  "khz_to_v4l2_freq freq = freq * V4L2_KHZ_FREQ_MUL"

definition v4l2_freq_to_khz :: "32 word \<Rightarrow> 32 word" where
  "v4l2_freq_to_khz v4l2_freq = v4l2_freq div V4L2_KHZ_FREQ_MUL"

subsection \<open>The register helpers\<close>

definition kt0913_get_fm_frequency :: "kt0913_device \<Rightarrow> (errno + 32 word) \<times> kt0913_device" where
  "kt0913_get_fm_frequency =
     via_regmap (bind_ret (regmap_read KT0913_REG_TUNE) (\<lambda>tune_reg.
       return_ret ((tune_reg AND KT0913_TUNE_FMCHAN_MASK) * KT0913_FMCHAN_MUL)))"

definition kt0913_set_fm_frequency :: "32 word \<Rightarrow> kt0913_device \<Rightarrow> (errno + unit) \<times> kt0913_device" where
  "kt0913_set_fm_frequency frequency =
     via_regmap (regmap_write KT0913_REG_TUNE
       (KT0913_TUNE_FMTUNE_ON OR (frequency div KT0913_FMCHAN_MUL)))"

definition kt0913_set_mute :: "32 word \<Rightarrow> kt0913_device \<Rightarrow> (errno + unit) \<times> kt0913_device" where
  "kt0913_set_mute on =
     via_regmap (regmap_update_bits KT0913_REG_VOLUME KT0913_VOLUME_DMUTE_MASK
       (if on \<noteq> 0 then KT0913_VOLUME_DMUTE_ON else KT0913_VOLUME_DMUTE_OFF))"

definition kt0913_set_deemphasis :: "32 word \<Rightarrow> kt0913_device \<Rightarrow> (errno + unit) \<times> kt0913_device" where
  "kt0913_set_deemphasis deemp radio =
     (if deemp = V4L2_DEEMPHASIS_75_uS then
        via_regmap (regmap_update_bits KT0913_REG_VOLUME KT0913_VOLUME_DE_MASK
          KT0913_VOLUME_DE_75US) radio
      else if deemp = V4L2_DEEMPHASIS_50_uS then
        via_regmap (regmap_update_bits KT0913_REG_VOLUME KT0913_VOLUME_DE_MASK
          KT0913_VOLUME_DE_50US) radio
      else (Inl EINVAL, radio))"

text \<open>
  \<^verbatim>\<open>volume = (volume / 2) + 31\<close>, the value \<^verbatim>\<open>__kt0913_set_volume\<close> hands to
  \<^verbatim>\<open>regmap_update_bits\<close>.
\<close>

definition kt0913_volume_field :: "32 word \<Rightarrow> 32 word" where
  "kt0913_volume_field volume = s32_div volume 2 + 31"

definition kt0913_set_volume :: "32 word \<Rightarrow> kt0913_device \<Rightarrow> (errno + unit) \<times> kt0913_device" where
  "kt0913_set_volume volume =
     via_regmap (regmap_update_bits KT0913_REG_RXCFG KT0913_RXCFGA_VOLUME_MASK
       (kt0913_volume_field volume))"

text \<open>
  \<^verbatim>\<open>*rssi\<close> is an \<^verbatim>\<open>s32\<close>: the field is shifted down, multiplied by 65535 and
  divided by \<^verbatim>\<open>mask >> shift\<close>.
\<close>

definition kt0913_get_fm_rssi :: "kt0913_device \<Rightarrow> (errno + 32 word) \<times> kt0913_device" where
  "kt0913_get_fm_rssi =
     via_regmap (bind_ret (regmap_read KT0913_REG_STATUSA) (\<lambda>statusa_reg.
       let rssi = drop_bit KT0913_STATUSA_FMRSSI_SHIFT (statusa_reg AND KT0913_STATUSA_FMRSSI_MASK);
           rssi = rssi * 65535;
           rssi = s32_div rssi (drop_bit KT0913_STATUSA_FMRSSI_SHIFT KT0913_STATUSA_FMRSSI_MASK)
       in return_ret rssi))"

definition kt0913_set_au_gain :: "32 word \<Rightarrow> kt0913_device \<Rightarrow> (errno + unit) \<times> kt0913_device" where
  "kt0913_set_au_gain gain radio =
     (if gain = 6 then
        via_regmap (regmap_update_bits KT0913_REG_AMSYSCFG KT0913_AMSYSCFG_AU_GAIN_MASK
          KT0913_AMSYSCFG_AU_GAIN_6DB) radio
      else if gain = 3 then
        via_regmap (regmap_update_bits KT0913_REG_AMSYSCFG KT0913_AMSYSCFG_AU_GAIN_MASK
          KT0913_AMSYSCFG_AU_GAIN_3DB) radio
      else if gain = 0 then
        via_regmap (regmap_update_bits KT0913_REG_AMSYSCFG KT0913_AMSYSCFG_AU_GAIN_MASK
          KT0913_AMSYSCFG_AU_GAIN_0DB) radio
      else if gain = - 3 then
        via_regmap (regmap_update_bits KT0913_REG_AMSYSCFG KT0913_AMSYSCFG_AU_GAIN_MASK
          KT0913_AMSYSCFG_AU_GAIN_MIN_3DB) radio
      else (Inl EINVAL, radio))"

definition kt0913_set_am_fm_band :: "band \<Rightarrow> kt0913_device \<Rightarrow> (errno + unit) \<times> kt0913_device" where
  "kt0913_set_am_fm_band b =
     via_regmap (regmap_update_bits KT0913_REG_AMSYSCFG KT0913_AMSYSCFG_AM_FM_MASK
       (if b = BAND_AM then KT0913_AMSYSCFG_AM_FM_AM else KT0913_AMSYSCFG_AM_FM_FM))"

definition kt0913_get_am_frequency :: "kt0913_device \<Rightarrow> (errno + 32 word) \<times> kt0913_device" where
  "kt0913_get_am_frequency =
     via_regmap (bind_ret (regmap_read KT0913_REG_AMCHAN) (\<lambda>amchan_reg.
       return_ret (amchan_reg AND KT0913_AMCHAN_AMCHAN_MASK)))"

definition kt0913_set_am_frequency :: "32 word \<Rightarrow> kt0913_device \<Rightarrow> (errno + unit) \<times> kt0913_device" where
  "kt0913_set_am_frequency frequency =
     via_regmap (regmap_write KT0913_REG_AMCHAN (KT0913_AMCHAN_AMTUNE_ON OR frequency))"

definition kt0913_get_am_rssi :: "kt0913_device \<Rightarrow> (errno + 32 word) \<times> kt0913_device" where
  "kt0913_get_am_rssi =
     via_regmap (bind_ret (regmap_read KT0913_REG_AMSTATUSA) (\<lambda>amstatusa_reg.
       let rssi = drop_bit KT0913_AMSTATUSA_AMRSSI_SHIFT
                    (amstatusa_reg AND KT0913_AMSTATUSA_AMRSSI_MASK);
           rssi = rssi * 65535;
           rssi = s32_div rssi
                    (drop_bit KT0913_AMSTATUSA_AMRSSI_SHIFT KT0913_AMSTATUSA_AMRSSI_MASK)
       in return_ret rssi))"

subsection \<open>Initialisation\<close>

text \<open>
  \<^verbatim>\<open>__kt0913_init\<close>; the module parameter \<^verbatim>\<open>kt0913_use_campus_band\<close> is its
  first argument.
\<close>

definition kt0913_init :: "int \<Rightarrow> kt0913_device \<Rightarrow> (errno + unit) \<times> kt0913_device" where
  "kt0913_init kt0913_use_campus_band =
     bind_ret (via_regmap (regmap_multi_reg_write kt0913_init_regs_to_defaults)) (\<lambda>_.
     bind_ret (\<lambda>radio. via_regmap (regmap_update_bits KT0913_REG_VOLUME KT0913_VOLUME_POP_MASK
                 (push_bit KT0913_VOLUME_POP_SHIFT (audio_anti_pop radio))) radio) (\<lambda>_.
     bind_ret (\<lambda>radio. via_regmap (regmap_update_bits KT0913_REG_AMSYSCFG
                 KT0913_AMSYSCFG_REFCLK_MASK
                 (push_bit KT0913_AMSYSCFG_REFCLK_SHIFT (refclock_val radio))) radio) (\<lambda>_.
     bind_ret (if kt0913_use_campus_band \<noteq> 0
               then via_regmap (regmap_update_bits KT0913_REG_LOCFGC
                      KT0913_LOCFG_CAMPUSBAND_EN_MASK KT0913_LOCFG_CAMPUSBAND_EN_ON)
               else return_ret ()) (\<lambda>_.
     kt0913_set_mute 1))))"

subsection \<open>The frequency ioctls\<close>

record v4l2_frequency =
  tuner :: "32 word"
  type :: "32 word"
  frequency :: "32 word"

text \<open>
  The query fills the structure of the caller; the model returns the filled structure when
  the query succeeds.
\<close>

definition kt0913_ioctl_vidioc_g_frequency ::
  "v4l2_frequency \<Rightarrow> kt0913_device \<Rightarrow> (errno + v4l2_frequency) \<times> kt0913_device"
where
  "kt0913_ioctl_vidioc_g_frequency f radio =
     (if tuner f \<noteq> 0 then (Inl EINVAL, radio)
      else bind_ret (if band radio = BAND_AM then kt0913_get_am_frequency
                     else kt0913_get_fm_frequency) (\<lambda>freq.
             return_ret (f\<lparr>type := V4L2_TUNER_RADIO, frequency := khz_to_v4l2_freq freq\<rparr>))
             radio)"

text \<open>
  The band a requested frequency belongs to: the range tests of
  \<^verbatim>\<open>kt0913_ioctl_vidioc_s_frequency\<close>, first the AM band, then the FM band, then the
  campus FM band when the module parameter enables it.
\<close>

definition kt0913_new_band :: "int \<Rightarrow> 32 word \<Rightarrow> errno + band" where
  "kt0913_new_band kt0913_use_campus_band freq =
     (if freq \<ge> rangelow (kt0913_bands BAND_AM) \<and> freq \<le> rangehigh (kt0913_bands BAND_AM)
      then Inr BAND_AM
      else if freq \<ge> rangelow (kt0913_bands BAND_FM) \<and> freq \<le> rangehigh (kt0913_bands BAND_FM)
      then Inr BAND_FM
      else if kt0913_use_campus_band \<noteq> 0 \<and>
              freq \<ge> rangelow (kt0913_bands BAND_FM_CAMUS) \<and>
              freq \<le> rangehigh (kt0913_bands BAND_FM_CAMUS)
      then Inr BAND_FM_CAMUS
      else Inl EINVAL)"

definition kt0913_ioctl_vidioc_s_frequency ::
  "int \<Rightarrow> v4l2_frequency \<Rightarrow> kt0913_device \<Rightarrow> (errno + unit) \<times> kt0913_device"
where
  "kt0913_ioctl_vidioc_s_frequency kt0913_use_campus_band f radio =
     (let freq = frequency f in
      if tuner f \<noteq> 0 \<or> type f \<noteq> V4L2_TUNER_RADIO then (Inl EINVAL, radio)
      else if freq = 0 then (Inl EINVAL, radio)
      else case kt0913_new_band kt0913_use_campus_band freq of
             Inl e \<Rightarrow> (Inl e, radio)
           | Inr new_band \<Rightarrow>
               bind_ret (if band radio \<noteq> new_band
                         then bind_ret (kt0913_set_am_fm_band new_band)
                                (\<lambda>_ r. (Inr (), r\<lparr>band := new_band\<rparr>))
                         else return_ret ()) (\<lambda>_ r.
                 let freq = v4l2_freq_to_khz freq in
                 if band r = BAND_AM then kt0913_set_am_frequency freq r
                 else kt0913_set_fm_frequency freq r) radio)"

subsection \<open>The control handler\<close>

text \<open>The control identifiers \<^verbatim>\<open>kt0913_s_ctrl\<close> tells apart; any other is \<open>V4L2_CID_other\<close>.\<close>

datatype v4l2_cid =
    V4L2_CID_AUDIO_MUTE
  | V4L2_CID_AUDIO_VOLUME
  | V4L2_CID_GAIN
  | V4L2_CID_TUNE_DEEMPHASIS
  | V4L2_CID_other

definition kt0913_s_ctrl :: "v4l2_cid \<Rightarrow> 32 word \<Rightarrow> kt0913_device \<Rightarrow> (errno + unit) \<times> kt0913_device" where
  "kt0913_s_ctrl ctrl_id ctrl_val radio =
     (case ctrl_id of
        V4L2_CID_AUDIO_MUTE \<Rightarrow> kt0913_set_mute ctrl_val radio
      | V4L2_CID_AUDIO_VOLUME \<Rightarrow> kt0913_set_volume ctrl_val radio
      | V4L2_CID_GAIN \<Rightarrow> kt0913_set_au_gain ctrl_val radio
      | V4L2_CID_TUNE_DEEMPHASIS \<Rightarrow> kt0913_set_deemphasis ctrl_val radio
      | V4L2_CID_other \<Rightarrow> (Inl EINVAL, radio))"

section \<open>Expected transfers and expected effects\<close>

text \<open>
  The definitions of this section are not part of the driver. They say what the register
  operations are expected to do, and the theorems compare the driver with them.
\<close>

subsection \<open>Transfer sequences\<close>

text \<open>The trace of a list of transfers that all succeed.\<close>

definition ok_transfers :: "bus_op list \<Rightarrow> (bus_op \<times> errno option) list" where
  "ok_transfers ops = map (\<lambda>op. (op, None)) ops"

text \<open>
  \<open>issues plan r ts\<close>: a call that was expected to issue the transfers \<open>plan\<close>, in this
  order, and that returned \<open>r\<close>, has added \<open>ts\<close> to the trace. On success \<open>ts\<close>
  is the whole plan, every transfer successful. On a failure with \<open>e\<close>, \<open>ts\<close> is a
  non-empty initial part of the plan, of which the last transfer failed with \<open>e\<close> and all
  the transfers before it succeeded: nothing of the plan is attempted after the failure.
\<close>

definition issues :: "bus_op list \<Rightarrow> errno + 'a \<Rightarrow> (bus_op \<times> errno option) list \<Rightarrow> bool" where
  "issues plan r ts \<longleftrightarrow>
     (case r of
        Inr _ \<Rightarrow> ts = ok_transfers plan
      | Inl e \<Rightarrow> ts \<noteq> [] \<and> length ts \<le> length plan \<and>
                 ts = ok_transfers (take (length ts - 1) plan) @
                      [(plan ! (length ts - 1), Some e)])"

text \<open>
  \<open>contract prj m s plan regs_after\<close>: run from the state \<open>s\<close>, whose regmap is
  \<open>prj s\<close>, the operation \<open>m\<close> issues the transfers of \<open>plan\<close> as \<open>issues\<close> says,
  and when it succeeds the registers of the chip are \<open>regs_after\<close>.
\<close>

definition contract ::
  "('s \<Rightarrow> i2c_regmap) \<Rightarrow> ('s \<Rightarrow> (errno + 'a) \<times> 's) \<Rightarrow> 's \<Rightarrow> bus_op list \<Rightarrow>
   (8 word \<Rightarrow> 16 word) \<Rightarrow> bool"
where
  "contract prj m s plan regs_after \<longleftrightarrow>
     (case m s of (r, s') \<Rightarrow>
        (\<exists>ts. trace (prj s') = trace (prj s) @ ts \<and> issues plan r ts) \<and>
        (case r of Inr _ \<Rightarrow> regs (prj s') = regs_after | Inl _ \<Rightarrow> True))"

text \<open>
  What \<open>update_bits\<close> makes of a register that reads \<open>orig\<close>: the new value, and the
  transfers (the read, and the write only when the value changes).
\<close>

definition update_bits_value :: "32 word \<Rightarrow> 32 word \<Rightarrow> 16 word \<Rightarrow> 32 word" where
  "update_bits_value msk val orig = (ucast orig AND NOT msk) OR (val AND msk)"

definition update_bits_plan :: "8 word \<Rightarrow> 32 word \<Rightarrow> 32 word \<Rightarrow> 16 word \<Rightarrow> bus_op list" where
  "update_bits_plan reg msk val orig =
     Bus_read reg #
       (if update_bits_value msk val orig \<noteq> ucast orig
        then [Bus_write reg (ucast (update_bits_value msk val orig))] else [])"

text \<open>The writes of a register table, in the order of the table, and the registers after them.\<close>

fun table_writes :: "(8 word \<times> 32 word) list \<Rightarrow> bus_op list" where
  "table_writes [] = []"
| "table_writes ((reg, val) # rest) = Bus_write reg (ucast val) # table_writes rest"

fun table_regs ::
  "(8 word \<times> 32 word) list \<Rightarrow> (8 word \<Rightarrow> 16 word) \<Rightarrow> (8 word \<Rightarrow> 16 word)"
where
  "table_regs [] g = g"
| "table_regs ((reg, val) # rest) g = table_regs rest (g(reg := ucast val))"

subsection \<open>Initialisation\<close>

text \<open>
  The transfers of the initialisation in the order the specification gives: (a) the table
  of defaults, (b) the anti-pop level into the volume register, which the table has left at
  0xE080, (c) the reference clock into the mode register, left at 0x0002, (d) the campus
  band bit of the register left at 0x0024, only when the feature is enabled, (e) mute on.
\<close>

definition kt0913_init_plan :: "int \<Rightarrow> 32 word \<Rightarrow> 32 word \<Rightarrow> bus_op list" where
  "kt0913_init_plan kt0913_use_campus_band anti_pop refclock =
     table_writes kt0913_init_regs_to_defaults @
     update_bits_plan KT0913_REG_VOLUME KT0913_VOLUME_POP_MASK
       (push_bit KT0913_VOLUME_POP_SHIFT anti_pop) 0xE080 @
     update_bits_plan KT0913_REG_AMSYSCFG KT0913_AMSYSCFG_REFCLK_MASK
       (push_bit KT0913_AMSYSCFG_REFCLK_SHIFT refclock) 0x0002 @
     (if kt0913_use_campus_band \<noteq> 0
      then update_bits_plan KT0913_REG_LOCFGC KT0913_LOCFG_CAMPUSBAND_EN_MASK
             KT0913_LOCFG_CAMPUSBAND_EN_ON 0x0024
      else []) @
     update_bits_plan KT0913_REG_VOLUME KT0913_VOLUME_DMUTE_MASK KT0913_VOLUME_DMUTE_ON
       (ucast (update_bits_value KT0913_VOLUME_POP_MASK
                 (push_bit KT0913_VOLUME_POP_SHIFT anti_pop) 0xE080))"

subsection \<open>Tuning\<close>

text \<open>
  The transfers of a tune request from the band \<open>cur\<close> to the band \<open>b\<close>: the update of
  the AM/FM mode bit when the band changes, then the write of the tune register of \<open>b\<close>.
\<close>

definition kt0913_mode_plan :: "band \<Rightarrow> band \<Rightarrow> 16 word \<Rightarrow> bus_op list" where
  "kt0913_mode_plan cur b amsyscfg =
     (if cur \<noteq> b
      then update_bits_plan KT0913_REG_AMSYSCFG KT0913_AMSYSCFG_AM_FM_MASK
             (if b = BAND_AM then KT0913_AMSYSCFG_AM_FM_AM else KT0913_AMSYSCFG_AM_FM_FM) amsyscfg
      else [])"

definition kt0913_tune_write :: "band \<Rightarrow> 32 word \<Rightarrow> bus_op" where
  "kt0913_tune_write b freq =
     (if b = BAND_AM
      then Bus_write KT0913_REG_AMCHAN (ucast (KT0913_AMCHAN_AMTUNE_ON OR v4l2_freq_to_khz freq))
      else Bus_write KT0913_REG_TUNE
             (ucast (KT0913_TUNE_FMTUNE_ON OR (v4l2_freq_to_khz freq div KT0913_FMCHAN_MUL))))"

definition kt0913_tuned_regs ::
  "band \<Rightarrow> band \<Rightarrow> 32 word \<Rightarrow> (8 word \<Rightarrow> 16 word) \<Rightarrow> (8 word \<Rightarrow> 16 word)"
where
  "kt0913_tuned_regs cur b freq g =
     (let g1 = (if cur \<noteq> b
                then g(KT0913_REG_AMSYSCFG := ucast (update_bits_value KT0913_AMSYSCFG_AM_FM_MASK
                       (if b = BAND_AM then KT0913_AMSYSCFG_AM_FM_AM else KT0913_AMSYSCFG_AM_FM_FM)
                       (g KT0913_REG_AMSYSCFG)))
                else g)
      in if b = BAND_AM
         then g1(KT0913_REG_AMCHAN := ucast (KT0913_AMCHAN_AMTUNE_ON OR v4l2_freq_to_khz freq))
         else g1(KT0913_REG_TUNE :=
                   ucast (KT0913_TUNE_FMTUNE_ON OR (v4l2_freq_to_khz freq div KT0913_FMCHAN_MUL))))"

text \<open>A write of the mode-config register, and a write of one of the two tune registers.\<close>

definition is_mode_write :: "bus_op \<times> errno option \<Rightarrow> bool" where
  "is_mode_write t =
     (case fst t of Bus_write reg v \<Rightarrow> reg = KT0913_REG_AMSYSCFG | Bus_read reg \<Rightarrow> False)"

definition is_tune_write :: "bus_op \<times> errno option \<Rightarrow> bool" where
  "is_tune_write t =
     (case fst t of
        Bus_write reg v \<Rightarrow> reg = KT0913_REG_TUNE \<or> reg = KT0913_REG_AMCHAN
      | Bus_read reg \<Rightarrow> False)"

text \<open>The channel step of a band in kHz: the chip counts FM in 50 kHz and AM in 1 kHz.\<close>

definition kt0913_band_step :: "band \<Rightarrow> nat" where
  "kt0913_band_step b = (if b = BAND_AM then 1 else 50)"

subsection \<open>The error kinds of the specification\<close>

text \<open>
  The specification names five kinds of error. The driver returns an errno: \<open>EINVAL\<close>
  where it rejects an argument (\<open>InvalidArgument\<close>), \<open>ENODEV\<close> where the probe finds
  another chip id (\<open>IdentificationFailure\<close>), and whatever the transport returned
  otherwise (\<open>IoError\<close>).
\<close>

datatype spec_error = IoError | ProtocolError | InvalidArgument | OutOfRange | IdentificationFailure

fun spec_error_of :: "errno \<Rightarrow> spec_error" where
  "spec_error_of EINVAL = InvalidArgument"
| "spec_error_of ENODEV = IdentificationFailure"
| "spec_error_of e = IoError"

subsection \<open>Fixtures\<close>

text \<open>
  The volume control as the probe registers it:
  \<^verbatim>\<open>v4l2_ctrl_new_std(hdl, &kt0913_ctrl_ops, V4L2_CID_AUDIO_VOLUME, -60, 0, 2, 0)\<close>,
  that is minimum -60, maximum 0, step 2.
\<close>

definition kt0913_volume_in_range :: "32 word \<Rightarrow> bool" where
  "kt0913_volume_in_range volume \<longleftrightarrow>
     - 60 \<le>s volume \<and> volume \<le>s 0 \<and> (sint volume + 60) mod 2 = 0"

text \<open>
  A device as the probe has it before initialisation: the structure zeroed, the device-tree
  defaults, a chip whose registers all read 0 and a transport that never fails.
\<close>

definition example_radio :: kt0913_device where
  "example_radio =
     \<lparr>band = BAND_FM, audio_anti_pop = 0, refclock_val = 0,
      regmap = \<lparr>regs = (\<lambda>_. 0), trace = [], faults = []\<rparr>\<rparr>"

text \<open>The same device with one register of the chip set.\<close>

definition with_reg :: "8 word \<Rightarrow> 16 word \<Rightarrow> kt0913_device \<Rightarrow> kt0913_device" where
  "with_reg reg v radio =
     radio\<lparr>regmap := (regmap radio)\<lparr>regs := (regs (regmap radio))(reg := v)\<rparr>\<rparr>"

text \<open>The same device with the outcomes of its next transfers set.\<close>

definition with_faults :: "errno option list \<Rightarrow> kt0913_device \<Rightarrow> kt0913_device" where
  "with_faults fs radio = radio\<lparr>regmap := (regmap radio)\<lparr>faults := fs\<rparr>\<rparr>"

section \<open>The registers the driver names\<close>

text \<open>
  Each register the driver reads or writes is in the volatile table and not above
  \<^verbatim>\<open>max_register\<close>: the regmap layer passes every access of the driver on to the bus.
\<close>

lemma kt0913_registers_volatile:
  "list_all (\<lambda>reg. regmap_reg_in_ranges reg kt0913_regmap_all_registers_range \<and>
                    reg \<le> KT0913_REG_AFC)
     (map fst kt0913_init_regs_to_defaults @
      [KT0913_REG_TUNE, KT0913_REG_VOLUME, KT0913_REG_DSPCFGA, KT0913_REG_LOCFGC,
       KT0913_REG_RXCFG, KT0913_REG_STATUSA, KT0913_REG_AMSYSCFG, KT0913_REG_AMCHAN,
       KT0913_REG_AMSTATUSA])"
  by (simp add: regmap_reg_in_ranges_def kt0913_regmap_all_registers_range_def
      kt0913_init_regs_to_defaults_def)

section \<open>Signed arithmetic on 32-bit values\<close>

lemma sint_eq_uint:
  fixes a :: "32 word"
  assumes "uint a < 2147483648"
  shows "sint a = uint a"
proof -
  have "sint a = signed_take_bit 31 (uint a)" by (simp add: sint_uint)
  also have "\<dots> = uint a"
  proof -
    have "(0::int) \<le> uint a" by simp
    then have "- 2147483648 \<le> uint a" by linarith
    with assms show ?thesis by (simp add: signed_take_bit_int_eq_self_iff)
  qed
  finally show ?thesis .
qed

lemma sdiv_nonneg: "0 \<le> (a::int) \<Longrightarrow> 0 \<le> b \<Longrightarrow> a sdiv b = a div b"
  by (cases "b = 0"; cases "a = 0") (simp_all add: signed_divide_int_def sgn_if)

lemma s32_div_pos:
  fixes a b :: "32 word"
  assumes "uint a < 2147483648" "uint b < 2147483648"
  shows "s32_div a b = a div b"
proof -
  have "sint a sdiv sint b = uint a div uint b"
    using assms by (simp add: sint_eq_uint sdiv_nonneg)
  then have "s32_div a b = word_of_int (uint a div uint b)"
    by (simp add: s32_div_def)
  also have "\<dots> = a div b"
    by (simp add: word_div_def)
  finally show ?thesis .
qed

lemma uint_mult_small:
  fixes a b :: "32 word"
  assumes "uint a * uint b < 4294967296"
  shows "uint (a * b) = uint a * uint b"
  using assms by (simp add: uint_word_ariths)

lemma sdiv_two_bounds:
  "- 1073741824 \<le> sint (v :: 32 word) sdiv 2 \<and> sint v sdiv 2 \<le> 1073741824"
proof -
  have lo: "- 2147483648 \<le> sint v" using sint_ge [of v] by simp
  have hi: "sint v < 2147483648" using sint_lt [of v] by simp
  show ?thesis
  proof (cases "0 \<le> sint v")
    case True
    then have "sint v sdiv 2 = sint v div 2"
      by (simp add: signed_divide_int_def sgn_if)
    with True hi show ?thesis by simp arith
  next
    case False
    then have "sint v sdiv 2 = - ((- sint v) div 2)"
      by (simp add: signed_divide_int_def sgn_if)
    with False lo show ?thesis by simp arith
  qed
qed

lemma sdiv_two_mono: "(a::int) \<le> b \<Longrightarrow> a sdiv 2 \<le> b sdiv 2"
  by (auto simp add: signed_divide_int_def sgn_if)

section \<open>Transfer sequences: composition\<close>

lemma ok_transfers_simps [simp]:
  "ok_transfers [] = []"
  "ok_transfers (op # ops) = (op, None) # ok_transfers ops"
  "ok_transfers (xs @ ys) = ok_transfers xs @ ok_transfers ys"
  "length (ok_transfers xs) = length xs"
  by (simp_all add: ok_transfers_def)

lemma issues_Inr [simp]: "issues plan (Inr x) ts \<longleftrightarrow> ts = ok_transfers plan"
  by (simp add: issues_def)

lemma issues_Inl_iff:
  "issues plan (Inl e) ts \<longleftrightarrow>
     (\<exists>pre op post. plan = pre @ op # post \<and> ts = ok_transfers pre @ [(op, Some e)])"
proof
  assume a: "issues plan (Inl e) ts"
  define n where "n = length ts - 1"
  from a have ne: "ts \<noteq> []" and le: "length ts \<le> length plan"
    and ts: "ts = ok_transfers (take n plan) @ [(plan ! n, Some e)]"
    by (simp_all add: issues_def n_def)
  from ne le have n: "n < length plan" by (cases ts) (simp_all add: n_def)
  then have "plan = take n plan @ plan ! n # drop (Suc n) plan"
    by (simp add: id_take_nth_drop [symmetric])
  with ts show "\<exists>pre op post. plan = pre @ op # post \<and> ts = ok_transfers pre @ [(op, Some e)]"
    by blast
next
  assume "\<exists>pre op post. plan = pre @ op # post \<and> ts = ok_transfers pre @ [(op, Some e)]"
  then obtain pre op post where p: "plan = pre @ op # post"
    and ts: "ts = ok_transfers pre @ [(op, Some e)]" by blast
  then show "issues plan (Inl e) ts"
    by (simp add: issues_def nth_append)
qed

lemma issues_append_ok:
  assumes "issues p1 (Inr x) ts1" "issues p2 r ts2"
  shows "issues (p1 @ p2) r (ts1 @ ts2)"
proof (cases r)
  case (Inr y)
  with assms show ?thesis by simp
next
  case (Inl e)
  with assms obtain pre op post where "p2 = pre @ op # post" "ts2 = ok_transfers pre @ [(op, Some e)]"
    by (auto simp add: issues_Inl_iff)
  with assms(1) have "p1 @ p2 = (p1 @ pre) @ op # post \<and> ts1 @ ts2 = ok_transfers (p1 @ pre) @ [(op, Some e)]"
    by simp
  then show ?thesis unfolding Inl issues_Inl_iff by blast
qed

lemma issues_append_fail:
  assumes "issues p1 (Inl e) ts"
  shows "issues (p1 @ p2) (Inl e) ts"
proof -
  from assms obtain pre op post where "p1 = pre @ op # post" "ts = ok_transfers pre @ [(op, Some e)]"
    by (auto simp add: issues_Inl_iff)
  then have "p1 @ p2 = pre @ op # (post @ p2) \<and> ts = ok_transfers pre @ [(op, Some e)]"
    by simp
  then show ?thesis unfolding issues_Inl_iff by blast
qed

lemma contract_bind:
  assumes m: "contract prj m s p1 g1"
    and k: "\<And>x s1. m s = (Inr x, s1) \<Longrightarrow> regs (prj s1) = g1 \<Longrightarrow> contract prj (k x) s1 p2 g2"
  shows "contract prj (bind_ret m k) s (p1 @ p2) g2"
proof (cases "m s")
  case (Pair r s1)
  show ?thesis
  proof (cases r)
    case (Inl e)
    with Pair m show ?thesis
      by (auto simp add: contract_def bind_ret_def intro: issues_append_fail)
  next
    case (Inr x)
    with Pair m obtain ts1 where t1: "trace (prj s1) = trace (prj s) @ ts1" "issues p1 (Inr x) ts1"
      and g: "regs (prj s1) = g1"
      by (auto simp add: contract_def)
    from k [OF _ g] Pair Inr have c2: "contract prj (k x) s1 p2 g2" by simp
    obtain r2 s2 where k2: "k x s1 = (r2, s2)" by (cases "k x s1")
    with c2 obtain ts2 where t2: "trace (prj s2) = trace (prj s1) @ ts2" "issues p2 r2 ts2"
      and g2: "case r2 of Inr _ \<Rightarrow> regs (prj s2) = g2 | Inl _ \<Rightarrow> True"
      by (auto simp add: contract_def)
    from t1 t2 have "trace (prj s2) = trace (prj s) @ (ts1 @ ts2)" "issues (p1 @ p2) r2 (ts1 @ ts2)"
      by (simp_all add: issues_append_ok)
    with g2 Pair Inr k2 show ?thesis
      by (auto simp add: contract_def bind_ret_def)
  qed
qed

lemma contract_return: "contract prj (return_ret x) s [] (regs (prj s))"
  by (simp add: contract_def return_ret_def)

lemma contract_bus_read: "contract (\<lambda>rm. rm) (bus_read reg) rm [Bus_read reg] (regs rm)"
  by (auto simp add: contract_def bus_read_def Let_def issues_def split: option.splits)

lemma contract_bus_write: "contract (\<lambda>rm. rm) (bus_write reg v) rm [Bus_write reg v] ((regs rm)(reg := v))"
  by (auto simp add: contract_def bus_write_def Let_def issues_def split: option.splits)

lemma contract_regmap_write:
  "reg \<le> KT0913_REG_AFC \<Longrightarrow>
   contract (\<lambda>rm. rm) (regmap_write reg val) rm [Bus_write reg (ucast val)] ((regs rm)(reg := ucast val))"
  using contract_bus_write [of reg "ucast val" rm]
  by (simp add: contract_def regmap_write_def not_less [symmetric])

lemma ucast_down_up:
  "(ucast (ucast (v :: 16 word) :: 32 word) :: 16 word) = v"
  by (rule bit_word_eqI) (auto simp add: bit_simps)

lemma regmap_read_value:
  assumes "regmap_read reg rm = (Inr orig, rm1)"
  shows "orig = ucast (regs rm reg)"
  using assms
  by (auto simp add: regmap_read_def bind_ret_def return_ret_def bus_read_def Let_def
      split: option.splits if_splits)

lemma contract_regmap_read:
  assumes "reg \<le> KT0913_REG_AFC"
  shows "contract (\<lambda>rm. rm) (regmap_read reg) rm [Bus_read reg] (regs rm)"
proof -
  have "contract (\<lambda>rm. rm) (bind_ret (bus_read reg) (\<lambda>v. return_ret (ucast v :: 32 word))) rm
              ([Bus_read reg] @ []) (regs rm)"
    by (rule contract_bind [OF contract_bus_read]) (simp add: contract_def return_ret_def)
  with assms show ?thesis
    by (simp add: contract_def regmap_read_def not_less [symmetric])
qed

lemma contract_update_bits:
  assumes "reg \<le> KT0913_REG_AFC"
  shows "contract (\<lambda>rm. rm) (regmap_update_bits reg msk val) rm
           (update_bits_plan reg msk val (regs rm reg))
           ((regs rm)(reg := ucast (update_bits_value msk val (regs rm reg))))"
proof -
  let ?new = "update_bits_value msk val (regs rm reg)"
  have "contract (\<lambda>rm. rm) (regmap_update_bits reg msk val) rm
          ([Bus_read reg] @ (if ?new \<noteq> ucast (regs rm reg) then [Bus_write reg (ucast ?new)] else []))
          ((regs rm)(reg := ucast ?new))"
    unfolding regmap_update_bits_def
  proof (rule contract_bind [OF contract_regmap_read [OF assms]])
    fix orig and rm1 :: i2c_regmap
    assume r: "regmap_read reg rm = (Inr orig, rm1)" and g: "regs rm1 = regs rm"
    have o: "orig = ucast (regs rm reg)" by (rule regmap_read_value [OF r])
    show "contract (\<lambda>rm. rm) (let tmp = (orig AND NOT msk) OR (val AND msk)
                    in if tmp \<noteq> orig then regmap_write reg tmp else return_ret ()) rm1
            (if ?new \<noteq> ucast (regs rm reg) then [Bus_write reg (ucast ?new)] else [])
            ((regs rm)(reg := ucast ?new))"
    proof (cases "?new \<noteq> ucast (regs rm reg)")
      case True
      with contract_regmap_write [OF assms, of ?new rm1] g o show ?thesis
        by (simp add: Let_def update_bits_value_def)
    next
      case False
      then have "(regs rm)(reg := ucast ?new) = regs rm"
        by (simp add: ucast_down_up)
      with False contract_return [of "\<lambda>rm. rm" "()" rm1] g o show ?thesis
        by (simp add: Let_def update_bits_value_def)
    qed
  qed
  then show ?thesis by (simp add: update_bits_plan_def)
qed

lemma contract_multi_reg_write:
  assumes "\<forall>(reg, val) \<in> set table. reg \<le> KT0913_REG_AFC"
  shows "contract (\<lambda>rm. rm) (regmap_multi_reg_write table) rm (table_writes table) (table_regs table (regs rm))"
  using assms
proof (induction table arbitrary: rm)
  case Nil
  then show ?case by (simp add: contract_def)
next
  case (Cons a table)
  obtain reg val where a: "a = (reg, val)" by (cases a)
  from Cons.prems a have v: "reg \<le> KT0913_REG_AFC" and rest: "\<forall>(reg, val) \<in> set table. reg \<le> KT0913_REG_AFC"
    by simp_all
  have "contract (\<lambda>rm. rm) (bind_ret (regmap_write reg val) (\<lambda>_. regmap_multi_reg_write table)) rm
          ([Bus_write reg (ucast val)] @ table_writes table)
          (table_regs table ((regs rm)(reg := ucast val)))"
  proof (rule contract_bind [OF contract_regmap_write [OF v]])
    fix x :: unit and rm1 :: i2c_regmap
    assume g: "regs rm1 = (regs rm)(reg := ucast val)"
    show "contract (\<lambda>rm. rm) (regmap_multi_reg_write table) rm1 (table_writes table)
            (table_regs table ((regs rm)(reg := ucast val)))"
      using Cons.IH [OF rest, of rm1] unfolding g .
  qed
  moreover have "regmap_multi_reg_write (a # table) = bind_ret (regmap_write reg val) (\<lambda>_. regmap_multi_reg_write table)"
    by (rule ext) (simp add: a)
  ultimately show ?case by (simp add: a)
qed

lemma contract_via_regmap:
  assumes "contract (\<lambda>rm. rm) m (regmap radio) plan g"
  shows "contract regmap (via_regmap m) radio plan g"
  using assms by (auto simp add: contract_def via_regmap_def split: prod.splits sum.splits)

lemma via_regmap_fields:
  assumes "via_regmap m radio = (r, radio')"
  shows "band radio' = band radio \<and> audio_anti_pop radio' = audio_anti_pop radio \<and>
         refclock_val radio' = refclock_val radio"
  using assms by (auto simp add: via_regmap_def split: prod.splits)

section \<open>The initialisation sequence\<close>

lemma init_table_valid:
  "\<forall>(reg, val) \<in> set kt0913_init_regs_to_defaults. reg \<le> KT0913_REG_AFC"
  by (simp add: kt0913_init_regs_to_defaults_def)

lemma init_table_regs:
  "table_regs kt0913_init_regs_to_defaults g KT0913_REG_VOLUME = 0xE080"
  "table_regs kt0913_init_regs_to_defaults g KT0913_REG_AMSYSCFG = 0x0002"
  "table_regs kt0913_init_regs_to_defaults g KT0913_REG_LOCFGC = 0x0024"
  by (simp_all add: kt0913_init_regs_to_defaults_def)

lemma contract_dev_update_bits:
  assumes "reg \<le> KT0913_REG_AFC" "regs (regmap radio) = g"
  shows "contract regmap (via_regmap (regmap_update_bits reg msk val)) radio
           (update_bits_plan reg msk val (g reg))
           (g(reg := ucast (update_bits_value msk val (g reg))))"
  using contract_via_regmap [OF contract_update_bits [OF assms(1), of msk val "regmap radio"]] assms(2)
  by simp

lemma contract_init:
  "\<exists>g. contract regmap (kt0913_init use) radio
     (kt0913_init_plan use (audio_anti_pop radio) (refclock_val radio)) g"
proof -
  define g1 where "g1 = table_regs kt0913_init_regs_to_defaults (regs (regmap radio))"
  define v2 where "v2 = update_bits_value KT0913_VOLUME_POP_MASK
                          (push_bit KT0913_VOLUME_POP_SHIFT (audio_anti_pop radio)) 0xE080"
  define g2 where "g2 = g1(KT0913_REG_VOLUME := ucast v2)"
  define g3 where "g3 = g2(KT0913_REG_AMSYSCFG := ucast (update_bits_value KT0913_AMSYSCFG_REFCLK_MASK
                          (push_bit KT0913_AMSYSCFG_REFCLK_SHIFT (refclock_val radio)) 0x0002))"
  define g4 where "g4 = (if use \<noteq> 0 then g3(KT0913_REG_LOCFGC := ucast (update_bits_value
                          KT0913_LOCFG_CAMPUSBAND_EN_MASK KT0913_LOCFG_CAMPUSBAND_EN_ON 0x0024)) else g3)"
  define g5 where "g5 = g4(KT0913_REG_VOLUME := ucast (update_bits_value KT0913_VOLUME_DMUTE_MASK
                          KT0913_VOLUME_DMUTE_ON (ucast v2)))"
  have r1: "g1 KT0913_REG_VOLUME = 0xE080" "g1 KT0913_REG_AMSYSCFG = 0x0002" "g1 KT0913_REG_LOCFGC = 0x0024"
    by (simp_all add: g1_def init_table_regs)
  have r2: "g2 KT0913_REG_AMSYSCFG = 0x0002" "g2 KT0913_REG_LOCFGC = 0x0024" "g2 KT0913_REG_VOLUME = ucast v2"
    by (simp_all add: g2_def r1)
  have r3: "g3 KT0913_REG_LOCFGC = 0x0024" "g3 KT0913_REG_VOLUME = ucast v2"
    by (simp_all add: g3_def r2)
  have r4: "g4 KT0913_REG_VOLUME = ucast v2"
    by (simp add: g4_def r3)
  have c1: "contract regmap (via_regmap (regmap_multi_reg_write kt0913_init_regs_to_defaults)) radio
              (table_writes kt0913_init_regs_to_defaults) g1"
    unfolding g1_def
    by (rule contract_via_regmap [OF contract_multi_reg_write [OF init_table_valid]])
  have c5: "contract regmap (kt0913_set_mute 1) s
             (update_bits_plan KT0913_REG_VOLUME KT0913_VOLUME_DMUTE_MASK KT0913_VOLUME_DMUTE_ON (ucast v2)) g5"
    if "regs (regmap s) = g4" for s
    using contract_dev_update_bits [of KT0913_REG_VOLUME s g4 KT0913_VOLUME_DMUTE_MASK KT0913_VOLUME_DMUTE_ON] that
    by (simp add: kt0913_set_mute_def r4 g5_def)
  have c4: "contract regmap (if use \<noteq> 0
               then via_regmap (regmap_update_bits KT0913_REG_LOCFGC
                      KT0913_LOCFG_CAMPUSBAND_EN_MASK KT0913_LOCFG_CAMPUSBAND_EN_ON)
               else return_ret ()) s
             (if use \<noteq> 0
              then update_bits_plan KT0913_REG_LOCFGC KT0913_LOCFG_CAMPUSBAND_EN_MASK
                     KT0913_LOCFG_CAMPUSBAND_EN_ON 0x0024
              else []) g4"
    if "regs (regmap s) = g3" for s
  proof (cases "use \<noteq> 0")
    case True
    with contract_dev_update_bits [of KT0913_REG_LOCFGC s g3 KT0913_LOCFG_CAMPUSBAND_EN_MASK
        KT0913_LOCFG_CAMPUSBAND_EN_ON] that
    show ?thesis by (simp add: r3 g4_def)
  next
    case False
    with contract_return [of regmap "()" s] that show ?thesis by (simp add: g4_def)
  qed
  have c3: "contract regmap (\<lambda>radio. via_regmap (regmap_update_bits KT0913_REG_AMSYSCFG
                 KT0913_AMSYSCFG_REFCLK_MASK
                 (push_bit KT0913_AMSYSCFG_REFCLK_SHIFT (refclock_val radio))) radio) s
             (update_bits_plan KT0913_REG_AMSYSCFG KT0913_AMSYSCFG_REFCLK_MASK
                (push_bit KT0913_AMSYSCFG_REFCLK_SHIFT (refclock_val radio)) 0x0002) g3"
    if "regs (regmap s) = g2" "refclock_val s = refclock_val radio" for s
    using contract_dev_update_bits [of KT0913_REG_AMSYSCFG s g2 KT0913_AMSYSCFG_REFCLK_MASK
        "push_bit KT0913_AMSYSCFG_REFCLK_SHIFT (refclock_val radio)"] that
    by (simp add: r2 g3_def contract_def)
  have c2: "contract regmap (\<lambda>radio. via_regmap (regmap_update_bits KT0913_REG_VOLUME
                 KT0913_VOLUME_POP_MASK
                 (push_bit KT0913_VOLUME_POP_SHIFT (audio_anti_pop radio))) radio) s
             (update_bits_plan KT0913_REG_VOLUME KT0913_VOLUME_POP_MASK
                (push_bit KT0913_VOLUME_POP_SHIFT (audio_anti_pop radio)) 0xE080) g2"
    if "regs (regmap s) = g1" "audio_anti_pop s = audio_anti_pop radio" for s
    using contract_dev_update_bits [of KT0913_REG_VOLUME s g1 KT0913_VOLUME_POP_MASK
        "push_bit KT0913_VOLUME_POP_SHIFT (audio_anti_pop radio)"] that
    by (simp add: r1 g2_def v2_def contract_def)
  have "contract regmap (kt0913_init use) radio
     (kt0913_init_plan use (audio_anti_pop radio) (refclock_val radio)) g5"
    unfolding kt0913_init_def kt0913_init_plan_def v2_def [symmetric]
  proof (rule contract_bind [OF c1])
    fix x1 :: unit and s1
    assume e1: "via_regmap (regmap_multi_reg_write kt0913_init_regs_to_defaults) radio = (Inr x1, s1)"
      and q1: "regs (regmap s1) = g1"
    note f1 = via_regmap_fields [OF e1]
    show "contract regmap
        (bind_ret (\<lambda>radio. via_regmap (regmap_update_bits KT0913_REG_VOLUME KT0913_VOLUME_POP_MASK
                 (push_bit KT0913_VOLUME_POP_SHIFT (audio_anti_pop radio))) radio) (\<lambda>_.
         bind_ret (\<lambda>radio. via_regmap (regmap_update_bits KT0913_REG_AMSYSCFG
                 KT0913_AMSYSCFG_REFCLK_MASK
                 (push_bit KT0913_AMSYSCFG_REFCLK_SHIFT (refclock_val radio))) radio) (\<lambda>_.
         bind_ret (if use \<noteq> 0
               then via_regmap (regmap_update_bits KT0913_REG_LOCFGC
                      KT0913_LOCFG_CAMPUSBAND_EN_MASK KT0913_LOCFG_CAMPUSBAND_EN_ON)
               else return_ret ()) (\<lambda>_.
         kt0913_set_mute 1)))) s1
        (update_bits_plan KT0913_REG_VOLUME KT0913_VOLUME_POP_MASK
           (push_bit KT0913_VOLUME_POP_SHIFT (audio_anti_pop radio)) 0xE080 @
         update_bits_plan KT0913_REG_AMSYSCFG KT0913_AMSYSCFG_REFCLK_MASK
           (push_bit KT0913_AMSYSCFG_REFCLK_SHIFT (refclock_val radio)) 0x0002 @
         (if use \<noteq> 0
          then update_bits_plan KT0913_REG_LOCFGC KT0913_LOCFG_CAMPUSBAND_EN_MASK
                 KT0913_LOCFG_CAMPUSBAND_EN_ON 0x0024
          else []) @
         update_bits_plan KT0913_REG_VOLUME KT0913_VOLUME_DMUTE_MASK KT0913_VOLUME_DMUTE_ON (ucast v2))
        g5"
    proof (rule contract_bind [OF c2 [OF q1]])
      show "audio_anti_pop s1 = audio_anti_pop radio" using f1 by simp
    next
      fix x2 :: unit and s2
      assume e2: "via_regmap (regmap_update_bits KT0913_REG_VOLUME KT0913_VOLUME_POP_MASK
                 (push_bit KT0913_VOLUME_POP_SHIFT (audio_anti_pop s1))) s1 = (Inr x2, s2)"
        and q2: "regs (regmap s2) = g2"
      note f2 = via_regmap_fields [OF e2]
      show "contract regmap
        (bind_ret (\<lambda>radio. via_regmap (regmap_update_bits KT0913_REG_AMSYSCFG
                 KT0913_AMSYSCFG_REFCLK_MASK
                 (push_bit KT0913_AMSYSCFG_REFCLK_SHIFT (refclock_val radio))) radio) (\<lambda>_.
         bind_ret (if use \<noteq> 0
               then via_regmap (regmap_update_bits KT0913_REG_LOCFGC
                      KT0913_LOCFG_CAMPUSBAND_EN_MASK KT0913_LOCFG_CAMPUSBAND_EN_ON)
               else return_ret ()) (\<lambda>_.
         kt0913_set_mute 1))) s2
        (update_bits_plan KT0913_REG_AMSYSCFG KT0913_AMSYSCFG_REFCLK_MASK
           (push_bit KT0913_AMSYSCFG_REFCLK_SHIFT (refclock_val radio)) 0x0002 @
         (if use \<noteq> 0
          then update_bits_plan KT0913_REG_LOCFGC KT0913_LOCFG_CAMPUSBAND_EN_MASK
                 KT0913_LOCFG_CAMPUSBAND_EN_ON 0x0024
          else []) @
         update_bits_plan KT0913_REG_VOLUME KT0913_VOLUME_DMUTE_MASK KT0913_VOLUME_DMUTE_ON (ucast v2))
        g5"
      proof (rule contract_bind [OF c3 [OF q2]])
        show "refclock_val s2 = refclock_val radio" using f1 f2 by simp
      next
        fix x3 :: unit and s3 :: kt0913_device
        assume q3: "regs (regmap s3) = g3"
        show "contract regmap
          (bind_ret (if use \<noteq> 0
               then via_regmap (regmap_update_bits KT0913_REG_LOCFGC
                      KT0913_LOCFG_CAMPUSBAND_EN_MASK KT0913_LOCFG_CAMPUSBAND_EN_ON)
               else return_ret ()) (\<lambda>_.
           kt0913_set_mute 1)) s3
          ((if use \<noteq> 0
            then update_bits_plan KT0913_REG_LOCFGC KT0913_LOCFG_CAMPUSBAND_EN_MASK
                   KT0913_LOCFG_CAMPUSBAND_EN_ON 0x0024
            else []) @
           update_bits_plan KT0913_REG_VOLUME KT0913_VOLUME_DMUTE_MASK KT0913_VOLUME_DMUTE_ON (ucast v2))
          g5"
        proof (rule contract_bind [OF c4 [OF q3]])
          fix x4 :: unit and s4 :: kt0913_device
          assume q4: "regs (regmap s4) = g4"
          show "contract regmap (kt0913_set_mute 1) s4
             (update_bits_plan KT0913_REG_VOLUME KT0913_VOLUME_DMUTE_MASK KT0913_VOLUME_DMUTE_ON (ucast v2)) g5"
            by (rule c5 [OF q4])
        qed
      qed
    qed
  qed
  then show ?thesis by blast
qed

section \<open>The tune request\<close>

lemma new_band_error: "kt0913_new_band use freq = Inl e \<Longrightarrow> e = EINVAL"
  by (simp add: kt0913_new_band_def split: if_splits)

lemma s_frequency_rejected:
  assumes "tuner f \<noteq> 0 \<or> type f \<noteq> V4L2_TUNER_RADIO \<or> frequency f = 0 \<or>
           (\<forall>b. kt0913_new_band use (frequency f) \<noteq> Inr b)"
  shows "kt0913_ioctl_vidioc_s_frequency use f radio = (Inl EINVAL, radio)"
proof (cases "kt0913_new_band use (frequency f)")
  case (Inl e)
  then have "e = EINVAL" by (rule new_band_error)
  with Inl show ?thesis
    by (simp add: kt0913_ioctl_vidioc_s_frequency_def Let_def)
next
  case (Inr b)
  with assms show ?thesis
    by (auto simp add: kt0913_ioctl_vidioc_s_frequency_def Let_def)
qed

lemma s_frequency_accepted:
  assumes "tuner f = 0" "type f = V4L2_TUNER_RADIO" "kt0913_new_band use (frequency f) = Inr b"
  shows "kt0913_ioctl_vidioc_s_frequency use f =
     bind_ret (\<lambda>radio. if band radio \<noteq> b
                        then bind_ret (kt0913_set_am_fm_band b) (\<lambda>_ r. (Inr (), r\<lparr>band := b\<rparr>)) radio
                        else return_ret () radio)
       (\<lambda>_ r. if band r = BAND_AM then kt0913_set_am_frequency (v4l2_freq_to_khz (frequency f)) r
               else kt0913_set_fm_frequency (v4l2_freq_to_khz (frequency f)) r)"
proof -
  from assms(3) have "frequency f \<noteq> 0"
    by (auto simp add: kt0913_new_band_def split: if_splits)
  with assms show ?thesis
    by (intro ext) (simp add: kt0913_ioctl_vidioc_s_frequency_def Let_def bind_ret_def)
qed

lemma contract_mode_step:
  "contract regmap
     (\<lambda>radio. if band radio \<noteq> b
               then bind_ret (kt0913_set_am_fm_band b) (\<lambda>_ r. (Inr (), r\<lparr>band := b\<rparr>)) radio
               else return_ret () radio) radio
     (kt0913_mode_plan (band radio) b (regs (regmap radio) KT0913_REG_AMSYSCFG))
     ((regs (regmap radio))(KT0913_REG_AMSYSCFG :=
        if band radio \<noteq> b
        then ucast (update_bits_value KT0913_AMSYSCFG_AM_FM_MASK
               (if b = BAND_AM then KT0913_AMSYSCFG_AM_FM_AM else KT0913_AMSYSCFG_AM_FM_FM)
               (regs (regmap radio) KT0913_REG_AMSYSCFG))
        else regs (regmap radio) KT0913_REG_AMSYSCFG))"
proof (cases "band radio \<noteq> b")
  case False
  with contract_return [of regmap "()" radio] show ?thesis
    by (simp add: kt0913_mode_plan_def contract_def)
next
  case True
  have c: "contract regmap (kt0913_set_am_fm_band b) radio
             (update_bits_plan KT0913_REG_AMSYSCFG KT0913_AMSYSCFG_AM_FM_MASK
               (if b = BAND_AM then KT0913_AMSYSCFG_AM_FM_AM else KT0913_AMSYSCFG_AM_FM_FM)
               (regs (regmap radio) KT0913_REG_AMSYSCFG))
             ((regs (regmap radio))(KT0913_REG_AMSYSCFG :=
                ucast (update_bits_value KT0913_AMSYSCFG_AM_FM_MASK
                  (if b = BAND_AM then KT0913_AMSYSCFG_AM_FM_AM else KT0913_AMSYSCFG_AM_FM_FM)
                  (regs (regmap radio) KT0913_REG_AMSYSCFG))))"
    unfolding kt0913_set_am_fm_band_def
    by (rule contract_dev_update_bits) simp_all
  have "contract regmap (bind_ret (kt0913_set_am_fm_band b) (\<lambda>_ r. (Inr (), r\<lparr>band := b\<rparr>))) radio
          (update_bits_plan KT0913_REG_AMSYSCFG KT0913_AMSYSCFG_AM_FM_MASK
               (if b = BAND_AM then KT0913_AMSYSCFG_AM_FM_AM else KT0913_AMSYSCFG_AM_FM_FM)
               (regs (regmap radio) KT0913_REG_AMSYSCFG) @ [])
          ((regs (regmap radio))(KT0913_REG_AMSYSCFG :=
                ucast (update_bits_value KT0913_AMSYSCFG_AM_FM_MASK
                  (if b = BAND_AM then KT0913_AMSYSCFG_AM_FM_AM else KT0913_AMSYSCFG_AM_FM_FM)
                  (regs (regmap radio) KT0913_REG_AMSYSCFG))))"
    by (rule contract_bind [OF c]) (simp add: contract_def)
  with True show ?thesis
    by (simp add: kt0913_mode_plan_def contract_def)
qed

lemma mode_step_band:
  assumes "(if band radio \<noteq> b
            then bind_ret (kt0913_set_am_fm_band b) (\<lambda>_ r. (Inr (), r\<lparr>band := b\<rparr>)) radio
            else return_ret () radio) = (r, radio1)"
  shows "(case r of Inr _ \<Rightarrow> band radio1 = b | Inl _ \<Rightarrow> band radio1 = band radio)"
  using assms
  by (auto simp add: bind_ret_def return_ret_def kt0913_set_am_fm_band_def
      dest: via_regmap_fields split: if_splits prod.splits sum.splits)

lemma contract_tune_step:
  assumes "band radio = b"
  shows "contract regmap
     (\<lambda>r. if band r = BAND_AM then kt0913_set_am_frequency (v4l2_freq_to_khz freq) r
           else kt0913_set_fm_frequency (v4l2_freq_to_khz freq) r) radio
     [kt0913_tune_write b freq]
     (if b = BAND_AM
      then (regs (regmap radio))(KT0913_REG_AMCHAN :=
             ucast (KT0913_AMCHAN_AMTUNE_ON OR v4l2_freq_to_khz freq))
      else (regs (regmap radio))(KT0913_REG_TUNE :=
             ucast (KT0913_TUNE_FMTUNE_ON OR (v4l2_freq_to_khz freq div KT0913_FMCHAN_MUL))))"
proof (cases "b = BAND_AM")
  case True
  have "contract regmap (kt0913_set_am_frequency (v4l2_freq_to_khz freq)) radio
          [Bus_write KT0913_REG_AMCHAN (ucast (KT0913_AMCHAN_AMTUNE_ON OR v4l2_freq_to_khz freq))]
          ((regs (regmap radio))(KT0913_REG_AMCHAN :=
             ucast (KT0913_AMCHAN_AMTUNE_ON OR v4l2_freq_to_khz freq)))"
    unfolding kt0913_set_am_frequency_def
    by (rule contract_via_regmap [OF contract_regmap_write]) simp
  with True assms show ?thesis
    by (simp add: kt0913_tune_write_def contract_def)
next
  case False
  have "contract regmap (kt0913_set_fm_frequency (v4l2_freq_to_khz freq)) radio
          [Bus_write KT0913_REG_TUNE
             (ucast (KT0913_TUNE_FMTUNE_ON OR (v4l2_freq_to_khz freq div KT0913_FMCHAN_MUL)))]
          ((regs (regmap radio))(KT0913_REG_TUNE :=
             ucast (KT0913_TUNE_FMTUNE_ON OR (v4l2_freq_to_khz freq div KT0913_FMCHAN_MUL))))"
    unfolding kt0913_set_fm_frequency_def
    by (rule contract_via_regmap [OF contract_regmap_write]) simp
  with False assms show ?thesis
    by (simp add: kt0913_tune_write_def contract_def)
qed

lemma contract_s_frequency:
  assumes "tuner f = 0" "type f = V4L2_TUNER_RADIO" "kt0913_new_band use (frequency f) = Inr b"
  shows "\<exists>g. contract regmap (kt0913_ioctl_vidioc_s_frequency use f) radio
           (kt0913_mode_plan (band radio) b (regs (regmap radio) KT0913_REG_AMSYSCFG) @
            [kt0913_tune_write b (frequency f)]) g"
proof -
  define g1 where "g1 = (regs (regmap radio))(KT0913_REG_AMSYSCFG :=
        if band radio \<noteq> b
        then ucast (update_bits_value KT0913_AMSYSCFG_AM_FM_MASK
               (if b = BAND_AM then KT0913_AMSYSCFG_AM_FM_AM else KT0913_AMSYSCFG_AM_FM_FM)
               (regs (regmap radio) KT0913_REG_AMSYSCFG))
        else regs (regmap radio) KT0913_REG_AMSYSCFG)"
  define g2 where "g2 = (if b = BAND_AM
      then g1(KT0913_REG_AMCHAN := ucast (KT0913_AMCHAN_AMTUNE_ON OR v4l2_freq_to_khz (frequency f)))
      else g1(KT0913_REG_TUNE :=
             ucast (KT0913_TUNE_FMTUNE_ON OR (v4l2_freq_to_khz (frequency f) div KT0913_FMCHAN_MUL))))"
  have "contract regmap (kt0913_ioctl_vidioc_s_frequency use f) radio
           (kt0913_mode_plan (band radio) b (regs (regmap radio) KT0913_REG_AMSYSCFG) @
            [kt0913_tune_write b (frequency f)]) g2"
    unfolding s_frequency_accepted [OF assms]
  proof (rule contract_bind [OF contract_mode_step [of b radio, folded g1_def]])
    fix x :: unit and s1
    assume e: "(if band radio \<noteq> b
            then bind_ret (kt0913_set_am_fm_band b) (\<lambda>_ r. (Inr (), r\<lparr>band := b\<rparr>)) radio
            else return_ret () radio) = (Inr x, s1)"
      and q: "regs (regmap s1) = g1"
    from mode_step_band [OF e] have b: "band s1 = b" by simp
    show "contract regmap
       (\<lambda>r. if band r = BAND_AM then kt0913_set_am_frequency (v4l2_freq_to_khz (frequency f)) r
             else kt0913_set_fm_frequency (v4l2_freq_to_khz (frequency f)) r) s1
       [kt0913_tune_write b (frequency f)] g2"
      using contract_tune_step [OF b, of "frequency f"] unfolding g2_def q [symmetric] .
  qed
  then show ?thesis by blast
qed

section \<open>A transport that does not fail\<close>

lemma bus_read_ok:
  "faults rm = [] \<Longrightarrow>
   bus_read reg rm = (Inr (regs rm reg), rm\<lparr>trace := trace rm @ [(Bus_read reg, None)]\<rparr>)"
  by (simp add: bus_read_def bus_outcome_def)

lemma bus_write_ok:
  "faults rm = [] \<Longrightarrow>
   bus_write reg v rm =
     (Inr (), rm\<lparr>regs := (regs rm)(reg := v), trace := trace rm @ [(Bus_write reg v, None)]\<rparr>)"
  by (simp add: bus_write_def bus_outcome_def)

lemma regmap_read_ok:
  "faults rm = [] \<Longrightarrow> reg \<le> KT0913_REG_AFC \<Longrightarrow>
   regmap_read reg rm =
     (Inr (ucast (regs rm reg)), rm\<lparr>trace := trace rm @ [(Bus_read reg, None)]\<rparr>)"
  by (simp add: regmap_read_def bus_read_ok bind_ret_def return_ret_def not_less [symmetric])

lemma regmap_write_ok:
  "faults rm = [] \<Longrightarrow> reg \<le> KT0913_REG_AFC \<Longrightarrow>
   regmap_write reg val rm =
     (Inr (), rm\<lparr>regs := (regs rm)(reg := ucast val),
                 trace := trace rm @ [(Bus_write reg (ucast val), None)]\<rparr>)"
  by (simp add: regmap_write_def bus_write_ok not_less [symmetric])

lemma regmap_update_bits_ok:
  assumes "faults rm = []" "reg \<le> KT0913_REG_AFC"
  shows "regmap_update_bits reg msk val rm =
     (Inr (),
      rm\<lparr>regs := (regs rm)(reg := ucast (update_bits_value msk val (regs rm reg))),
         trace := trace rm @ ok_transfers (update_bits_plan reg msk val (regs rm reg))\<rparr>)"
  using assms
  by (simp add: regmap_update_bits_def bind_ret_def return_ret_def regmap_read_ok regmap_write_ok
      Let_def update_bits_value_def update_bits_plan_def ucast_down_up)

lemma regmap_multi_reg_write_ok:
  assumes "faults rm = []" "\<forall>(reg, val) \<in> set table. reg \<le> KT0913_REG_AFC"
  shows "regmap_multi_reg_write table rm =
     (Inr (), rm\<lparr>regs := table_regs table (regs rm),
                 trace := trace rm @ ok_transfers (table_writes table)\<rparr>)"
  using assms
proof (induction table arbitrary: rm)
  case Nil
  then show ?case by simp
next
  case (Cons a table)
  obtain reg val where a: "a = (reg, val)" by (cases a)
  from Cons.prems a have v: "reg \<le> KT0913_REG_AFC"
    and rest: "\<forall>(reg, val) \<in> set table. reg \<le> KT0913_REG_AFC"
    by simp_all
  let ?rm1 = "rm\<lparr>regs := (regs rm)(reg := ucast val),
                 trace := trace rm @ [(Bus_write reg (ucast val), None)]\<rparr>"
  have f1: "faults ?rm1 = []" using Cons.prems(1) by simp
  show ?case
    using Cons.IH [OF f1 rest] Cons.prems(1) v
    by (simp add: a bind_ret_def regmap_write_ok fun_upd_def)
qed

lemma dev_update_bits_ok:
  assumes "faults (regmap radio) = []" "reg \<le> KT0913_REG_AFC"
  shows "via_regmap (regmap_update_bits reg msk val) radio =
     (Inr (),
      radio\<lparr>regmap := (regmap radio)
        \<lparr>regs := (regs (regmap radio))
                  (reg := ucast (update_bits_value msk val (regs (regmap radio) reg))),
         trace := trace (regmap radio) @
                  ok_transfers (update_bits_plan reg msk val (regs (regmap radio) reg))\<rparr>\<rparr>)"
  using assms by (simp add: via_regmap_def regmap_update_bits_ok)

lemma dev_write_ok:
  assumes "faults (regmap radio) = []" "reg \<le> KT0913_REG_AFC"
  shows "via_regmap (regmap_write reg val) radio =
     (Inr (),
      radio\<lparr>regmap := (regmap radio)
        \<lparr>regs := (regs (regmap radio))(reg := ucast val),
         trace := trace (regmap radio) @ [(Bus_write reg (ucast val), None)]\<rparr>\<rparr>)"
  using assms by (simp add: via_regmap_def regmap_write_ok)

lemma dev_read_ok:
  assumes "faults (regmap radio) = []" "reg \<le> KT0913_REG_AFC"
  shows "via_regmap (bind_ret (regmap_read reg) (\<lambda>v. return_ret (h v))) radio =
     (Inr (h (ucast (regs (regmap radio) reg))),
      radio\<lparr>regmap := (regmap radio)
        \<lparr>trace := trace (regmap radio) @ [(Bus_read reg, None)]\<rparr>\<rparr>)"
  using assms by (simp add: via_regmap_def regmap_read_ok bind_ret_def return_ret_def)

lemma s_frequency_ok:
  assumes "faults (regmap radio) = []" "tuner f = 0" "type f = V4L2_TUNER_RADIO"
    "kt0913_new_band use (frequency f) = Inr b"
  shows "kt0913_ioctl_vidioc_s_frequency use f radio =
     (Inr (),
      radio\<lparr>band := b,
            regmap := (regmap radio)
              \<lparr>regs := kt0913_tuned_regs (band radio) b (frequency f) (regs (regmap radio)),
               trace := trace (regmap radio) @
                 ok_transfers (kt0913_mode_plan (band radio) b (regs (regmap radio) KT0913_REG_AMSYSCFG) @
                               [kt0913_tune_write b (frequency f)])\<rparr>\<rparr>)"
  using assms(1)
  by (simp add: s_frequency_accepted [OF assms(2,3,4)] bind_ret_def return_ret_def
      kt0913_set_am_fm_band_def kt0913_set_am_frequency_def kt0913_set_fm_frequency_def
      dev_update_bits_ok dev_write_ok kt0913_tuned_regs_def kt0913_mode_plan_def
      kt0913_tune_write_def Let_def)

lemma g_frequency_ok:
  assumes "faults (regmap radio) = []" "tuner q = 0"
  shows "kt0913_ioctl_vidioc_g_frequency q radio =
     (Inr (q\<lparr>type := V4L2_TUNER_RADIO,
             frequency := khz_to_v4l2_freq
               (if band radio = BAND_AM
                then ucast (regs (regmap radio) KT0913_REG_AMCHAN) AND KT0913_AMCHAN_AMCHAN_MASK
                else (ucast (regs (regmap radio) KT0913_REG_TUNE) AND KT0913_TUNE_FMCHAN_MASK) *
                       KT0913_FMCHAN_MUL)\<rparr>),
      radio\<lparr>regmap := (regmap radio)
        \<lparr>trace := trace (regmap radio) @
           [(Bus_read (if band radio = BAND_AM then KT0913_REG_AMCHAN else KT0913_REG_TUNE), None)]\<rparr>\<rparr>)"
  using assms
  by (simp add: kt0913_ioctl_vidioc_g_frequency_def bind_ret_def return_ret_def
      kt0913_get_am_frequency_def kt0913_get_fm_frequency_def dev_read_ok)

section \<open>The frequency codec\<close>

lemma ucast_16_32:
  fixes x :: "32 word"
  shows "(ucast (ucast x :: 16 word) :: 32 word) = x AND 0xFFFF"
proof -
  have "(ucast (ucast x :: 16 word) :: 32 word) = x AND mask 16"
    by (rule bit_word_eqI) (auto simp add: bit_simps)
  then show ?thesis by (simp add: mask_eq_exp_minus_1)
qed

lemma fm_chan_roundtrip:
  fixes c :: "32 word" assumes "c < 0x1000"
  shows "(ucast (ucast (0x8000 OR c) :: 16 word) :: 32 word) AND 0xFFF = c"
proof -
  have c: "c AND 0xFFF = c"
    using assms less_mask_eq [of c 12] by (simp add: mask_eq_exp_minus_1)
  have "(0x8000 OR c) AND 0xFFFF AND 0xFFF = (0x8000 OR c) AND (0xFFF :: 32 word)"
    by (simp add: and.assoc)
  also have "\<dots> = c"
    by (simp add: bit.conj_disj_distrib2 c)
  finally show ?thesis by (simp add: ucast_16_32 and.assoc)
qed

lemma am_chan_roundtrip:
  fixes c :: "32 word" assumes "c < 0x800"
  shows "(ucast (ucast (0x8000 OR c) :: 16 word) :: 32 word) AND 0x7FF = c"
proof -
  have c: "c AND 0x7FF = c"
    using assms less_mask_eq [of c 11] by (simp add: mask_eq_exp_minus_1)
  have "(0x8000 OR c) AND 0xFFFF AND 0x7FF = (0x8000 OR c) AND (0x7FF :: 32 word)"
    by (simp add: and.assoc)
  also have "\<dots> = c"
    by (simp add: bit.conj_disj_distrib2 c)
  finally show ?thesis by (simp add: ucast_16_32 and.assoc)
qed

lemma new_band_range:
  assumes "kt0913_new_band use freq = Inr b"
  shows "(b = BAND_AM \<longrightarrow> 8000 \<le> freq \<and> freq \<le> 27360) \<and>
         (b \<noteq> BAND_AM \<longrightarrow> 512000 \<le> freq \<and> freq \<le> 1760000)"
  using assms by (auto simp add: kt0913_new_band_def word_le_nat_alt split: if_splits)

lemma am_code:
  fixes freq :: "32 word"
  assumes "freq \<le> 27360"
  shows "v4l2_freq_to_khz freq < 0x800 \<and>
         unat (khz_to_v4l2_freq (v4l2_freq_to_khz freq)) = unat freq div 16 * 16"
proof -
  from assms have u: "unat freq \<le> 27360" by (simp add: word_le_nat_alt)
  have k: "unat (v4l2_freq_to_khz freq) = unat freq div 16"
    by (simp add: v4l2_freq_to_khz_def unat_div)
  with u have lt: "v4l2_freq_to_khz freq < 0x800"
    by (simp add: word_less_nat_alt)
  have "unat (v4l2_freq_to_khz freq) * unat (16 :: 32 word) < 2 ^ LENGTH(32)"
    using u k by simp
  then have "unat (v4l2_freq_to_khz freq * 16) = unat (v4l2_freq_to_khz freq) * unat (16 :: 32 word)"
    by (simp only: unat_mult_lem)
  with k lt show ?thesis by (simp add: khz_to_v4l2_freq_def)
qed

lemma fm_code:
  fixes freq :: "32 word"
  assumes "freq \<le> 1760000"
  shows "v4l2_freq_to_khz freq div 50 < 0x1000 \<and>
         unat (khz_to_v4l2_freq (v4l2_freq_to_khz freq div 50 * 50)) = unat freq div 800 * 800"
proof -
  from assms have u: "unat freq \<le> 1760000" by (simp add: word_le_nat_alt)
  have "unat (v4l2_freq_to_khz freq div 50) = unat freq div 16 div 50"
    by (simp add: v4l2_freq_to_khz_def unat_div)
  then have k: "unat (v4l2_freq_to_khz freq div 50) = unat freq div 800"
    by (simp add: div_mult2_eq)
  with u have lt: "v4l2_freq_to_khz freq div 50 < 0x1000"
    by (simp add: word_less_nat_alt)
  have "unat (v4l2_freq_to_khz freq div 50) * unat (800 :: 32 word) < 2 ^ LENGTH(32)"
    using u k by simp
  then have "unat (v4l2_freq_to_khz freq div 50 * 800) = unat (v4l2_freq_to_khz freq div 50) * unat (800 :: 32 word)"
    by (simp only: unat_mult_lem)
  moreover have "khz_to_v4l2_freq (v4l2_freq_to_khz freq div 50 * 50) = v4l2_freq_to_khz freq div 50 * 800"
    by (simp add: khz_to_v4l2_freq_def)
  ultimately show ?thesis using k lt by simp
qed

lemma round_trip_value:
  assumes "kt0913_new_band use freq = Inr b"
  shows "unat (khz_to_v4l2_freq
           (if b = BAND_AM
            then ucast (kt0913_tuned_regs cur b freq g KT0913_REG_AMCHAN) AND KT0913_AMCHAN_AMCHAN_MASK
            else (ucast (kt0913_tuned_regs cur b freq g KT0913_REG_TUNE) AND KT0913_TUNE_FMCHAN_MASK) *
                   KT0913_FMCHAN_MUL)) =
         unat freq div (16 * kt0913_band_step b) * (16 * kt0913_band_step b)"
proof (cases "b = BAND_AM")
  case True
  with new_band_range [OF assms] have "freq \<le> 27360" by simp
  from am_code [OF this] True show ?thesis
    by (simp add: kt0913_tuned_regs_def kt0913_band_step_def Let_def am_chan_roundtrip)
next
  case False
  with new_band_range [OF assms] have "freq \<le> 1760000" by simp
  from fm_code [OF this] False show ?thesis
    by (simp add: kt0913_tuned_regs_def kt0913_band_step_def Let_def fm_chan_roundtrip)
qed

section \<open>The volume mapping\<close>

lemma sint_volume_field: "sint (kt0913_volume_field v) = sint v sdiv 2 + 31"
proof -
  have b: "- 1073741824 \<le> sint v sdiv 2 \<and> sint v sdiv 2 \<le> 1073741824"
    by (rule sdiv_two_bounds)
  have eq: "kt0913_volume_field v = word_of_int (sint v sdiv 2 + 31)"
    by (simp add: kt0913_volume_field_def s32_div_def)
  have "sint (word_of_int (sint v sdiv 2 + 31) :: 32 word) =
          signed_take_bit 31 (sint v sdiv 2 + 31)"
    by (subst sint_sbintrunc') simp
  then have "sint (kt0913_volume_field v) = signed_take_bit 31 (sint v sdiv 2 + 31)"
    by (simp only: eq)
  also have "\<dots> = sint v sdiv 2 + 31"
    using b by (simp add: signed_take_bit_int_eq_self_iff)
  finally show ?thesis .
qed

lemma volume_field_mono: "db1 \<le>s db2 \<Longrightarrow> kt0913_volume_field db1 \<le>s kt0913_volume_field db2"
  by (simp add: word_sle_eq sint_volume_field sdiv_two_mono)

text \<open>
  C6. The volume mapping \<open>field(db) = db / 2 + 31\<close> sends -60 to 1 and 0 to 31, and it is
  monotone on the values of the control: for \<open>db1 < db2\<close> among -60, -58, ..., 0 the
  field of \<open>db1\<close> is at most the field of \<open>db2\<close>.
\<close>

theorem kt0913_volume_field_monotone:
  "kt0913_volume_field (- 60) = 1 \<and> kt0913_volume_field 0 = 31 \<and>
   (\<forall>db1 db2. kt0913_volume_in_range db1 \<and> kt0913_volume_in_range db2 \<and> db1 <s db2 \<longrightarrow>
      kt0913_volume_field db1 \<le>s kt0913_volume_field db2)"
proof -
  have lo: "kt0913_volume_field (- 60) = 1"
    by (simp add: kt0913_volume_field_def s32_div_def)
  have hi: "kt0913_volume_field 0 = 31"
    by (simp add: kt0913_volume_field_def s32_div_def)
  have mono: "kt0913_volume_field db1 \<le>s kt0913_volume_field db2" if "db1 <s db2" for db1 db2
  proof -
    from that have "db1 \<le>s db2" by (simp add: word_sle_eq word_sless_alt)
    then show ?thesis by (rule volume_field_mono)
  qed
  from lo hi mono show ?thesis by blast
qed

theorem kt0913_volume_field_monotone_witness:
  "kt0913_volume_in_range (- 58) \<and> kt0913_volume_in_range (- 2) \<and> (- 58 :: 32 word) <s - 2 \<and>
   kt0913_volume_field (- 58) = 2 \<and> kt0913_volume_field (- 2) = 30 \<and>
   kt0913_volume_field (- 58) \<le>s kt0913_volume_field (- 2)"
proof -
  have r1: "kt0913_volume_in_range (- 58)"
    by (simp add: kt0913_volume_in_range_def word_sle_eq)
  have r2: "kt0913_volume_in_range (- 2)"
    by (simp add: kt0913_volume_in_range_def word_sle_eq)
  have lt: "(- 58 :: 32 word) <s - 2"
    by (simp add: word_sless_alt)
  have v1: "kt0913_volume_field (- 58) = 2"
    by (simp add: kt0913_volume_field_def s32_div_def)
  have v2: "kt0913_volume_field (- 2) = 30"
    by (simp add: kt0913_volume_field_def s32_div_def)
  from kt0913_volume_field_monotone r1 r2 lt
  have "kt0913_volume_field (- 58) \<le>s kt0913_volume_field (- 2)" by blast
  with r1 r2 lt v1 v2 show ?thesis by simp
qed

section \<open>The band classification\<close>

lemma new_band_chain:
  "kt0913_new_band use freq =
     (if 8000 \<le> freq \<and> freq \<le> 27360 then Inr BAND_AM
      else if 1024000 \<le> freq \<and> freq \<le> 1760000 then Inr BAND_FM
      else if use \<noteq> 0 \<and> 512000 \<le> freq \<and> freq < 1024000 then Inr BAND_FM_CAMUS
      else Inl EINVAL)"
  by (auto simp add: kt0913_new_band_def word_le_nat_alt word_less_nat_alt)

lemma s_frequency_band:
  assumes "kt0913_ioctl_vidioc_s_frequency use f radio = (Inr (), radio')"
  shows "kt0913_new_band use (frequency f) = Inr (band radio')"
proof (cases "tuner f \<noteq> 0 \<or> type f \<noteq> V4L2_TUNER_RADIO \<or> frequency f = 0 \<or>
           (\<forall>b. kt0913_new_band use (frequency f) \<noteq> Inr b)")
  case True
  from s_frequency_rejected [OF True, of radio] assms show ?thesis by simp
next
  case False
  then obtain b where v: "tuner f = 0" "type f = V4L2_TUNER_RADIO"
    and b: "kt0913_new_band use (frequency f) = Inr b" by auto
  let ?step1 = "\<lambda>radio. if band radio \<noteq> b
                        then bind_ret (kt0913_set_am_fm_band b) (\<lambda>_ r. (Inr (), r\<lparr>band := b\<rparr>)) radio
                        else return_ret () radio"
  obtain r1 s1 where e1: "?step1 radio = (r1, s1)" by (cases "?step1 radio")
  from assms have "r1 = Inr ()"
    unfolding s_frequency_accepted [OF v b] using e1
    by (cases r1) (simp_all add: bind_ret_def)
  with mode_step_band [OF e1] have b1: "band s1 = b" by simp
  have "band radio' = band s1"
    using assms unfolding s_frequency_accepted [OF v b] using e1 \<open>r1 = Inr ()\<close>
    by (auto simp add: bind_ret_def kt0913_set_am_frequency_def kt0913_set_fm_frequency_def
        dest: via_regmap_fields split: if_splits)
  with b1 b show ?thesis by simp
qed

text \<open>
  C1. For every requested frequency the tune request classifies the target band by range
  membership in the fixed order AM, then FM, then the campus (extended) FM band, the last
  only when the module parameter enables it. In V4L2 units the AM band is 8000..27360, the
  FM band 1024000..1760000 and the campus band 512000..1760000: a frequency in the AM range
  is AM whatever else holds, a frequency in the FM range is \<open>BAND_FM\<close> also when the
  campus band is enabled, and \<open>BAND_FM_CAMUS\<close> is left for 512000 up to 1024000. A tune
  request that succeeds leaves the device in the band so classified.
\<close>

theorem kt0913_band_priority:
  "kt0913_new_band use freq =
     (if 8000 \<le> freq \<and> freq \<le> 27360 then Inr BAND_AM
      else if 1024000 \<le> freq \<and> freq \<le> 1760000 then Inr BAND_FM
      else if use \<noteq> 0 \<and> 512000 \<le> freq \<and> freq < 1024000 then Inr BAND_FM_CAMUS
      else Inl EINVAL) \<and>
   (\<forall>f radio radio'.
      kt0913_ioctl_vidioc_s_frequency use f radio = (Inr (), radio') \<longrightarrow>
      kt0913_new_band use (frequency f) = Inr (band radio'))"
  using new_band_chain s_frequency_band by blast

text \<open>C1 at the boundaries of the three ranges, and on a campus band request.\<close>

theorem kt0913_band_priority_witness:
  "kt0913_new_band 1 8000 = Inr BAND_AM \<and>
   kt0913_new_band 1 27360 = Inr BAND_AM \<and>
   kt0913_new_band 1 1024000 = Inr BAND_FM \<and>
   kt0913_new_band 1 1023999 = Inr BAND_FM_CAMUS \<and>
   kt0913_new_band 0 1023999 = Inl EINVAL \<and>
   kt0913_new_band 1 (frequency \<lparr>tuner = 0, type = V4L2_TUNER_RADIO, frequency = 1023999\<rparr>) =
     Inr (band (snd (kt0913_ioctl_vidioc_s_frequency 1
       \<lparr>tuner = 0, type = V4L2_TUNER_RADIO, frequency = 1023999\<rparr> example_radio)))"
proof -
  let ?f = "\<lparr>tuner = 0, type = V4L2_TUNER_RADIO, frequency = 1023999\<rparr>"
  have b: "kt0913_new_band 1 (frequency ?f) = Inr BAND_FM_CAMUS"
    by (simp add: kt0913_new_band_def)
  have "fst (kt0913_ioctl_vidioc_s_frequency 1 ?f example_radio) = Inr ()"
    by (subst s_frequency_ok [OF _ _ _ b]) (simp_all add: example_radio_def)
  then have e: "kt0913_ioctl_vidioc_s_frequency 1 ?f example_radio =
           (Inr (), snd (kt0913_ioctl_vidioc_s_frequency 1 ?f example_radio))"
    by (simp add: prod_eq_iff)
  note p = kt0913_band_priority
  from p [of 1 8000] p [of 1 27360] p [of 1 1024000] p [of 1 1023999] p [of 0 1023999]
    p [of 1 0, THEN conjunct2, rule_format, OF e]
  show ?thesis by simp
qed

text \<open>
  C2, as stated, fails: with the campus band disabled a request for 40 MHz lies in no
  enabled range, and the driver fails it with \<open>EINVAL\<close>, the errno of the zero
  frequency, which is \<open>InvalidArgument\<close> and not a separate \<open>OutOfRange\<close>.
\<close>

theorem kt0913_s_frequency_out_of_range_counterexample:
  "fst (kt0913_ioctl_vidioc_s_frequency 0
          \<lparr>tuner = 0, type = V4L2_TUNER_RADIO, frequency = 40000 * 16\<rparr> example_radio) = Inl EINVAL \<and>
   fst (kt0913_ioctl_vidioc_s_frequency 0
          \<lparr>tuner = 0, type = V4L2_TUNER_RADIO, frequency = 0\<rparr> example_radio) = Inl EINVAL \<and>
   spec_error_of EINVAL = InvalidArgument \<and> spec_error_of EINVAL \<noteq> OutOfRange"
  by (simp add: kt0913_ioctl_vidioc_s_frequency_def kt0913_new_band_def)

text \<open>
  C2, amended. A tune request for the frequency 0, and a tune request for a frequency that
  lies in no enabled band range, both fail with \<open>EINVAL\<close> (\<open>InvalidArgument\<close>; the
  driver has no separate out-of-range error). In both cases the device is returned as it
  was: no transfer is added to the trace, and the registers and the band are unchanged.
\<close>

theorem kt0913_s_frequency_rejects_without_access:
  assumes "frequency f = 0 \<or> (\<forall>b. kt0913_new_band use (frequency f) \<noteq> Inr b)"
  shows "kt0913_ioctl_vidioc_s_frequency use f radio = (Inl EINVAL, radio) \<and>
         spec_error_of EINVAL = InvalidArgument"
  using assms s_frequency_rejected [of f use radio] by auto

text \<open>C2, amended, at 40 MHz with the campus band disabled and at the frequency 0.\<close>

theorem kt0913_s_frequency_rejects_without_access_witness:
  "kt0913_new_band 0 (40000 * 16) = Inl EINVAL \<and>
   kt0913_ioctl_vidioc_s_frequency 0
     \<lparr>tuner = 0, type = V4L2_TUNER_RADIO, frequency = 40000 * 16\<rparr> example_radio =
     (Inl EINVAL, example_radio) \<and>
   kt0913_ioctl_vidioc_s_frequency 0
     \<lparr>tuner = 0, type = V4L2_TUNER_RADIO, frequency = 0\<rparr> example_radio =
     (Inl EINVAL, example_radio)"
proof -
  have n: "kt0913_new_band 0 (40000 * 16) = Inl EINVAL"
    by (simp add: kt0913_new_band_def)
  then have h: "\<forall>b. kt0913_new_band 0
      (frequency \<lparr>tuner = 0, type = V4L2_TUNER_RADIO, frequency = 40000 * 16\<rparr>) \<noteq> Inr b"
    by simp
  from kt0913_s_frequency_rejects_without_access [of _ 0 example_radio, OF disjI2, OF h]
       kt0913_s_frequency_rejects_without_access
         [of "\<lparr>tuner = 0, type = V4L2_TUNER_RADIO, frequency = 0\<rparr>" 0 example_radio] n
  show ?thesis by simp
qed

section \<open>The order of the mode write and the tune write\<close>

lemma issues_prefix:
  assumes "issues plan r ts"
  shows "prefix (map fst ts) plan"
proof (cases r)
  case (Inr x)
  with assms show ?thesis by (simp add: ok_transfers_def comp_def)
next
  case (Inl e)
  with assms obtain pre op post where "plan = pre @ op # post" "ts = ok_transfers pre @ [(op, Some e)]"
    by (auto simp add: issues_Inl_iff)
  then show ?thesis by (simp add: ok_transfers_def comp_def)
qed

lemma tune_write_kind:
  "is_tune_write (kt0913_tune_write b freq, out) \<and> \<not> is_mode_write (kt0913_tune_write b freq, out)"
  by (simp add: is_tune_write_def is_mode_write_def kt0913_tune_write_def)

lemma mode_plan_shape:
  "kt0913_mode_plan cur b amsyscfg = [] \<and> cur = b \<or>
   cur \<noteq> b \<and> (kt0913_mode_plan cur b amsyscfg = [Bus_read KT0913_REG_AMSYSCFG] \<or>
               (\<exists>v. kt0913_mode_plan cur b amsyscfg =
                      [Bus_read KT0913_REG_AMSYSCFG, Bus_write KT0913_REG_AMSYSCFG v]))"
  by (simp add: kt0913_mode_plan_def update_bits_plan_def)

lemma tune_order:
  assumes p: "prefix (map fst ts) (kt0913_mode_plan cur b amsyscfg @ [kt0913_tune_write b freq])"
  shows "((\<exists>t \<in> set ts. is_mode_write t) \<longrightarrow> cur \<noteq> b) \<and>
         (\<forall>i j. i < length ts \<and> j < length ts \<and> is_mode_write (ts ! i) \<and> is_tune_write (ts ! j)
                \<longrightarrow> i < j)"
proof -
  let ?plan = "kt0913_mode_plan cur b amsyscfg @ [kt0913_tune_write b freq]"
  have kind: "is_mode_write t = is_mode_write (fst t, None)" "is_tune_write t = is_tune_write (fst t, None)" for t
    by (simp_all add: is_mode_write_def is_tune_write_def)
  have nth: "fst (ts ! i) = ?plan ! i" if "i < length ts" for i
  proof -
    from p obtain rest where "?plan = map fst ts @ rest" by (auto simp add: prefix_def)
    with that show ?thesis by (simp add: nth_append)
  qed
  have len: "length ts \<le> length ?plan"
    using prefix_length_le [OF p] by simp
  have plan_order: "i < j"
    if "i < length ?plan" "j < length ?plan" "is_mode_write (?plan ! i, None)" "is_tune_write (?plan ! j, None)"
    for i j
    using that mode_plan_shape [of cur b amsyscfg] tune_write_kind [of b freq None]
    by (auto simp add: nth_Cons' is_mode_write_def is_tune_write_def less_Suc_eq split: if_splits)
  have plan_mode: "cur \<noteq> b" if "i < length ?plan" "is_mode_write (?plan ! i, None)" for i
    using that mode_plan_shape [of cur b amsyscfg] tune_write_kind [of b freq None]
    by (auto simp add: nth_Cons' is_mode_write_def less_Suc_eq split: if_splits)
  have a: "cur \<noteq> b" if "t \<in> set ts" "is_mode_write t" for t
  proof -
    from that(1) obtain i where i: "i < length ts" "ts ! i = t" by (auto simp add: in_set_conv_nth)
    with that(2) kind(1) [of t] nth [OF i(1)] have "is_mode_write (?plan ! i, None)" by simp
    moreover from i len have "i < length ?plan" by simp
    ultimately show ?thesis by (rule plan_mode [rotated])
  qed
  have b: "i < j" if "i < length ts" "j < length ts" "is_mode_write (ts ! i)" "is_tune_write (ts ! j)" for i j
  proof -
    from that kind(1) [of "ts ! i"] kind(2) [of "ts ! j"] nth [of i] nth [of j]
    have "is_mode_write (?plan ! i, None)" "is_tune_write (?plan ! j, None)" by simp_all
    moreover from that len have "i < length ?plan" "j < length ?plan" by simp_all
    ultimately show ?thesis using plan_order by blast
  qed
  from a b show ?thesis by blast
qed

text \<open>
  C3. Whatever a tune request returns, the transfers \<open>ts\<close> it has issued contain a write
  of the mode-config register only when the classified band differs from the band of the
  device, and every such write stands before every write of a tune register (TUNE or
  AMCHAN) in \<open>ts\<close>.
\<close>

theorem kt0913_mode_write_before_tune:
  assumes "kt0913_ioctl_vidioc_s_frequency use f radio = (r, radio')"
  shows "\<exists>ts. trace (regmap radio') = trace (regmap radio) @ ts \<and>
           ((\<exists>t \<in> set ts. is_mode_write t) \<longrightarrow>
              (\<exists>b. kt0913_new_band use (frequency f) = Inr b \<and> b \<noteq> band radio)) \<and>
           (\<forall>i j. i < length ts \<and> j < length ts \<and> is_mode_write (ts ! i) \<and> is_tune_write (ts ! j)
                  \<longrightarrow> i < j)"
proof (cases "tuner f \<noteq> 0 \<or> type f \<noteq> V4L2_TUNER_RADIO \<or> frequency f = 0 \<or>
           (\<forall>b. kt0913_new_band use (frequency f) \<noteq> Inr b)")
  case True
  from s_frequency_rejected [OF True, of radio] assms have "radio' = radio" by simp
  then have "trace (regmap radio') = trace (regmap radio) @ []" by simp
  then show ?thesis by (intro exI [of _ "[]"]) simp
next
  case False
  then obtain b where v: "tuner f = 0" "type f = V4L2_TUNER_RADIO"
    and b: "kt0913_new_band use (frequency f) = Inr b" by auto
  from contract_s_frequency [OF v b, of radio] assms
  obtain ts where ts: "trace (regmap radio') = trace (regmap radio) @ ts"
    and i: "issues (kt0913_mode_plan (band radio) b (regs (regmap radio) KT0913_REG_AMSYSCFG) @
                    [kt0913_tune_write b (frequency f)]) r ts"
    by (auto simp add: contract_def)
  from tune_order [OF issues_prefix [OF i]] b ts show ?thesis by auto
qed

text \<open>C3 on a request for AM 1000 kHz from the FM band: the mode write, then the tune write.\<close>

theorem kt0913_mode_write_before_tune_witness:
  "trace (regmap (snd (kt0913_ioctl_vidioc_s_frequency 0
      \<lparr>tuner = 0, type = V4L2_TUNER_RADIO, frequency = 1000 * 16\<rparr> example_radio))) =
     [(Bus_read KT0913_REG_AMSYSCFG, None), (Bus_write KT0913_REG_AMSYSCFG 0x8000, None),
      (Bus_write KT0913_REG_AMCHAN 0x83E8, None)] \<and>
   is_mode_write (Bus_write KT0913_REG_AMSYSCFG 0x8000, None) \<and>
   is_tune_write (Bus_write KT0913_REG_AMCHAN 0x83E8, None) \<and>
   (\<exists>b. kt0913_new_band 0 (1000 * 16) = Inr b \<and> b \<noteq> band example_radio)"
proof -
  let ?f = "\<lparr>tuner = 0, type = V4L2_TUNER_RADIO, frequency = 1000 * 16\<rparr>"
  let ?T = "[(Bus_read KT0913_REG_AMSYSCFG, None), (Bus_write KT0913_REG_AMSYSCFG 0x8000, None),
      (Bus_write KT0913_REG_AMCHAN 0x83E8, None)]"
  have b: "kt0913_new_band 0 (frequency ?f) = Inr BAND_AM"
    by (simp add: kt0913_new_band_def)
  have t: "trace (regmap (snd (kt0913_ioctl_vidioc_s_frequency 0 ?f example_radio))) = ?T"
    by (subst s_frequency_ok [OF _ _ _ b])
       (simp_all add: example_radio_def kt0913_mode_plan_def update_bits_plan_def
          update_bits_value_def kt0913_tune_write_def v4l2_freq_to_khz_def)
  have m: "is_mode_write (Bus_write KT0913_REG_AMSYSCFG 0x8000, None)"
    by (simp add: is_mode_write_def)
  have u: "is_tune_write (Bus_write KT0913_REG_AMCHAN 0x83E8, None)"
    by (simp add: is_tune_write_def)
  from kt0913_mode_write_before_tune [OF surjective_pairing, of 0 ?f example_radio]
  obtain ts where ts: "trace (regmap (snd (kt0913_ioctl_vidioc_s_frequency 0 ?f example_radio))) =
        trace (regmap example_radio) @ ts"
    and w: "(\<exists>t \<in> set ts. is_mode_write t) \<longrightarrow>
              (\<exists>b. kt0913_new_band 0 (frequency ?f) = Inr b \<and> b \<noteq> band example_radio)"
    by blast
  from ts t have "ts = ?T" by (simp add: example_radio_def)
  with w m have "\<exists>b. kt0913_new_band 0 (frequency ?f) = Inr b \<and> b \<noteq> band example_radio"
    by simp
  with t m u show ?thesis by simp
qed

section \<open>The failure of the mode write\<close>

lemma set_am_fm_band_failure:
  assumes "kt0913_set_am_fm_band b radio = (Inl e, radio1)"
  shows "band radio1 = band radio \<and>
         (\<exists>ts. trace (regmap radio1) = trace (regmap radio) @ ts \<and> ts \<noteq> [] \<and>
               snd (last ts) = Some e \<and> (\<forall>t \<in> set ts. \<not> is_tune_write t))"
proof -
  let ?plan = "update_bits_plan KT0913_REG_AMSYSCFG KT0913_AMSYSCFG_AM_FM_MASK
               (if b = BAND_AM then KT0913_AMSYSCFG_AM_FM_AM else KT0913_AMSYSCFG_AM_FM_FM)
               (regs (regmap radio) KT0913_REG_AMSYSCFG)"
  have "contract regmap (kt0913_set_am_fm_band b) radio ?plan
          ((regs (regmap radio))(KT0913_REG_AMSYSCFG :=
             ucast (update_bits_value KT0913_AMSYSCFG_AM_FM_MASK
               (if b = BAND_AM then KT0913_AMSYSCFG_AM_FM_AM else KT0913_AMSYSCFG_AM_FM_FM)
               (regs (regmap radio) KT0913_REG_AMSYSCFG))))"
    unfolding kt0913_set_am_fm_band_def
    by (rule contract_dev_update_bits) simp_all
  with assms obtain ts where ts: "trace (regmap radio1) = trace (regmap radio) @ ts"
    and i: "issues ?plan (Inl e :: errno + unit) ts"
    by (auto simp add: contract_def)
  from i obtain pre op post where p: "?plan = pre @ op # post"
    and t: "ts = ok_transfers pre @ [(op, Some e)]"
    by (auto simp add: issues_Inl_iff)
  have "\<forall>op \<in> set ?plan. \<not> is_tune_write (op, out)" for out
    by (simp add: update_bits_plan_def is_tune_write_def)
  with p have "\<forall>op \<in> set (pre @ [op]). \<not> is_tune_write (op, out)" for out
    by simp
  with t have nt: "\<forall>t \<in> set ts. \<not> is_tune_write t"
    by (auto simp add: ok_transfers_def is_tune_write_def)
  from assms have "band radio1 = band radio"
    by (auto simp add: kt0913_set_am_fm_band_def dest: via_regmap_fields)
  with ts t nt show ?thesis by auto
qed

text \<open>
  C10. When the band has to change and the update of the AM/FM mode bit fails with an
  error \<open>e\<close>, the tune request returns \<open>e\<close> in the state the update left: the band of
  the device is unchanged, the last transfer issued is the one that failed with \<open>e\<close>,
  and no write of a tune register is among the transfers issued.
\<close>

theorem kt0913_mode_write_failure:
  assumes "tuner f = 0" "type f = V4L2_TUNER_RADIO"
    and "kt0913_new_band use (frequency f) = Inr b" "band radio \<noteq> b"
    and "kt0913_set_am_fm_band b radio = (Inl e, radio1)"
  shows "kt0913_ioctl_vidioc_s_frequency use f radio = (Inl e, radio1) \<and>
         band radio1 = band radio \<and>
         (\<exists>ts. trace (regmap radio1) = trace (regmap radio) @ ts \<and> ts \<noteq> [] \<and>
               snd (last ts) = Some e \<and> (\<forall>t \<in> set ts. \<not> is_tune_write t))"
proof -
  have "kt0913_ioctl_vidioc_s_frequency use f radio = (Inl e, radio1)"
    unfolding s_frequency_accepted [OF assms(1,2,3)]
    using assms(4,5) by (simp add: bind_ret_def)
  with set_am_fm_band_failure [OF assms(5)] show ?thesis by simp
qed

text \<open>
  C10 on a transport that lets the read of the mode-config register pass and fails its
  write with \<open>EIO\<close>.
\<close>

theorem kt0913_mode_write_failure_witness:
  "kt0913_new_band 0 (1000 * 16) = Inr BAND_AM \<and> band example_radio \<noteq> BAND_AM \<and>
   kt0913_set_am_fm_band BAND_AM (with_faults [None, Some EIO] example_radio) =
     (Inl EIO, example_radio\<lparr>regmap := (regmap example_radio)
        \<lparr>trace := [(Bus_read KT0913_REG_AMSYSCFG, None),
                   (Bus_write KT0913_REG_AMSYSCFG 0x8000, Some EIO)]\<rparr>\<rparr>) \<and>
   kt0913_ioctl_vidioc_s_frequency 0 \<lparr>tuner = 0, type = V4L2_TUNER_RADIO, frequency = 1000 * 16\<rparr>
       (with_faults [None, Some EIO] example_radio) =
     (Inl EIO, example_radio\<lparr>regmap := (regmap example_radio)
        \<lparr>trace := [(Bus_read KT0913_REG_AMSYSCFG, None),
                   (Bus_write KT0913_REG_AMSYSCFG 0x8000, Some EIO)]\<rparr>\<rparr>)"
proof -
  let ?f = "\<lparr>tuner = 0, type = V4L2_TUNER_RADIO, frequency = 1000 * 16\<rparr>"
  let ?r = "with_faults [None, Some EIO] example_radio"
  let ?r1 = "example_radio\<lparr>regmap := (regmap example_radio)
        \<lparr>trace := [(Bus_read KT0913_REG_AMSYSCFG, None),
                   (Bus_write KT0913_REG_AMSYSCFG 0x8000, Some EIO)]\<rparr>\<rparr>"
  have b: "kt0913_new_band 0 (frequency ?f) = Inr BAND_AM"
    by (simp add: kt0913_new_band_def)
  have c: "band ?r \<noteq> BAND_AM"
    by (simp add: with_faults_def example_radio_def)
  have m: "kt0913_set_am_fm_band BAND_AM ?r = (Inl EIO, ?r1)"
    by (simp add: kt0913_set_am_fm_band_def via_regmap_def regmap_update_bits_def regmap_read_def
        regmap_write_def bus_read_def bus_write_def bus_outcome_def bind_ret_def return_ret_def
        Let_def with_faults_def example_radio_def)
  from kt0913_mode_write_failure [OF _ _ b c m] b c m show ?thesis
    by (simp add: with_faults_def example_radio_def)
qed

section \<open>Tuning to AM 1000 kHz\<close>

lemma mode_bit_am:
  "(ucast (update_bits_value KT0913_AMSYSCFG_AM_FM_MASK KT0913_AMSYSCFG_AM_FM_AM orig) :: 16 word) =
     orig OR 0x8000"
proof -
  have "(ucast ((ucast orig AND NOT (2 ^ 15)) OR ((2 ^ 15 :: 32 word) AND 2 ^ 15)) :: 16 word) =
          orig OR 2 ^ 15"
    by (rule bit_word_eqI) (auto simp add: bit_simps)
  then show ?thesis by (simp add: update_bits_value_def)
qed

text \<open>
  C4. From a device in the FM band, on a transport that does not fail, the tune request
  for \<open>1000 * 16\<close> succeeds, leaves the device in the AM band, sets the AM/FM mode bit of
  the mode-config register, writes \<open>0x8000 OR 1000\<close> to the AM channel register as its
  last transfer, and the next frequency query returns exactly \<open>1000 * 16\<close>.
\<close>

theorem kt0913_tune_am_1000:
  assumes "band radio = BAND_FM" "faults (regmap radio) = []" "tuner q = 0"
  shows "\<exists>radio1 radio2.
     kt0913_ioctl_vidioc_s_frequency use
       \<lparr>tuner = 0, type = V4L2_TUNER_RADIO, frequency = 1000 * 16\<rparr> radio = (Inr (), radio1) \<and>
     band radio1 = BAND_AM \<and>
     regs (regmap radio1) KT0913_REG_AMSYSCFG = regs (regmap radio) KT0913_REG_AMSYSCFG OR 0x8000 \<and>
     regs (regmap radio1) KT0913_REG_AMCHAN = 0x8000 OR 1000 \<and>
     trace (regmap radio1) = trace (regmap radio) @
       ok_transfers (update_bits_plan KT0913_REG_AMSYSCFG KT0913_AMSYSCFG_AM_FM_MASK
                       KT0913_AMSYSCFG_AM_FM_AM (regs (regmap radio) KT0913_REG_AMSYSCFG) @
                     [Bus_write KT0913_REG_AMCHAN (0x8000 OR 1000)]) \<and>
     kt0913_ioctl_vidioc_g_frequency q radio1 =
       (Inr (q\<lparr>type := V4L2_TUNER_RADIO, frequency := 1000 * 16\<rparr>), radio2)"
proof -
  let ?f = "\<lparr>tuner = 0, type = V4L2_TUNER_RADIO, frequency = 1000 * 16\<rparr>"
  have b: "kt0913_new_band use (frequency ?f) = Inr BAND_AM"
    by (simp add: kt0913_new_band_def)
  define radio1 where "radio1 = snd (kt0913_ioctl_vidioc_s_frequency use ?f radio)"
  have s: "kt0913_ioctl_vidioc_s_frequency use ?f radio = (Inr (), radio1)"
    unfolding radio1_def by (subst (1 2) s_frequency_ok [OF assms(2) _ _ b]) simp_all
  have r1: "radio1 = radio\<lparr>band := BAND_AM,
            regmap := (regmap radio)
              \<lparr>regs := kt0913_tuned_regs (band radio) BAND_AM (frequency ?f) (regs (regmap radio)),
               trace := trace (regmap radio) @
                 ok_transfers (kt0913_mode_plan (band radio) BAND_AM (regs (regmap radio) KT0913_REG_AMSYSCFG) @
                               [kt0913_tune_write BAND_AM (frequency ?f)])\<rparr>\<rparr>"
    unfolding radio1_def by (subst s_frequency_ok [OF assms(2) _ _ b]) simp_all
  have band1: "band radio1 = BAND_AM" by (simp add: r1)
  have f1: "faults (regmap radio1) = []" using assms(2) by (simp add: r1)
  have sys: "regs (regmap radio1) KT0913_REG_AMSYSCFG = regs (regmap radio) KT0913_REG_AMSYSCFG OR 0x8000"
    using assms(1) by (simp add: r1 kt0913_tuned_regs_def mode_bit_am)
  have chan: "regs (regmap radio1) KT0913_REG_AMCHAN = 0x8000 OR 1000"
    by (simp add: r1 kt0913_tuned_regs_def v4l2_freq_to_khz_def)
  have tr: "trace (regmap radio1) = trace (regmap radio) @
       ok_transfers (update_bits_plan KT0913_REG_AMSYSCFG KT0913_AMSYSCFG_AM_FM_MASK
                       KT0913_AMSYSCFG_AM_FM_AM (regs (regmap radio) KT0913_REG_AMSYSCFG) @
                     [Bus_write KT0913_REG_AMCHAN (0x8000 OR 1000)])"
    using assms(1) by (simp add: r1 kt0913_mode_plan_def kt0913_tune_write_def v4l2_freq_to_khz_def)
  have g: "kt0913_ioctl_vidioc_g_frequency q radio1 =
       (Inr (q\<lparr>type := V4L2_TUNER_RADIO, frequency := 1000 * 16\<rparr>),
        snd (kt0913_ioctl_vidioc_g_frequency q radio1))"
    by (subst (1 2) g_frequency_ok [OF f1 assms(3)]) (simp add: band1 chan khz_to_v4l2_freq_def)
  from s band1 sys chan tr g show ?thesis by blast
qed

text \<open>C4 on the example device after its initialisation.\<close>

theorem kt0913_tune_am_1000_witness:
  "band (snd (kt0913_init 0 example_radio)) = BAND_FM \<and>
   faults (regmap (snd (kt0913_init 0 example_radio))) = [] \<and>
   regs (regmap (snd (kt0913_init 0 example_radio))) KT0913_REG_AMSYSCFG = 0x0002 \<and>
   (\<exists>radio1 radio2.
      kt0913_ioctl_vidioc_s_frequency 0
        \<lparr>tuner = 0, type = V4L2_TUNER_RADIO, frequency = 1000 * 16\<rparr>
        (snd (kt0913_init 0 example_radio)) = (Inr (), radio1) \<and>
      band radio1 = BAND_AM \<and>
      regs (regmap radio1) KT0913_REG_AMSYSCFG = 0x8002 \<and>
      regs (regmap radio1) KT0913_REG_AMCHAN = 0x83E8 \<and>
      kt0913_ioctl_vidioc_g_frequency \<lparr>tuner = 0, type = 0, frequency = 0\<rparr> radio1 =
        (Inr \<lparr>tuner = 0, type = V4L2_TUNER_RADIO, frequency = 16000\<rparr>, radio2))"
proof -
  let ?r = "snd (kt0913_init 0 example_radio)"
  have i: "kt0913_init 0 example_radio =
     (Inr (), example_radio\<lparr>regmap := (regmap example_radio)
        \<lparr>regs := regs (regmap ?r), trace := trace (regmap ?r)\<rparr>\<rparr>)"
    by (simp add: kt0913_init_def bind_ret_def return_ret_def kt0913_set_mute_def
        dev_update_bits_ok via_regmap_def regmap_multi_reg_write_ok init_table_valid
        regmap_update_bits_ok example_radio_def)
  have b: "band ?r = BAND_FM" by (subst i) (simp add: example_radio_def)
  have f: "faults (regmap ?r) = []" by (subst i) (simp add: example_radio_def)
  have a: "regs (regmap ?r) KT0913_REG_AMSYSCFG = 0x0002"
    by (simp add: kt0913_init_def bind_ret_def return_ret_def kt0913_set_mute_def
        dev_update_bits_ok via_regmap_def regmap_multi_reg_write_ok init_table_valid
        regmap_update_bits_ok example_radio_def init_table_regs update_bits_value_def)
  from kt0913_tune_am_1000 [OF b f, of "\<lparr>tuner = 0, type = 0, frequency = 0\<rparr>" 0] b f a
  show ?thesis by auto
qed

section \<open>The frequency round trip\<close>

text \<open>
  C5. On a transport that does not fail, a tune request for a frequency \<open>f\<close> that lies
  in the range of a band \<open>b\<close>, followed by a frequency query, returns \<open>f\<close> truncated
  down to a multiple of 16 times the channel step of \<open>b\<close> (50 kHz for FM, 1 kHz for
  AM); it returns \<open>f\<close> itself when \<open>f\<close> is such a multiple.
\<close>

theorem kt0913_frequency_round_trip:
  assumes "faults (regmap radio) = []" "tuner f = 0" "type f = V4L2_TUNER_RADIO" "tuner q = 0"
    and "kt0913_new_band use (frequency f) = Inr b"
  shows "\<exists>radio1 radio2 f'.
     kt0913_ioctl_vidioc_s_frequency use f radio = (Inr (), radio1) \<and>
     kt0913_ioctl_vidioc_g_frequency q radio1 = (Inr f', radio2) \<and>
     unat (frequency f') =
       unat (frequency f) div (16 * kt0913_band_step b) * (16 * kt0913_band_step b) \<and>
     (unat (frequency f) mod (16 * kt0913_band_step b) = 0 \<longrightarrow> frequency f' = frequency f)"
proof -
  define radio1 where "radio1 = radio\<lparr>band := b,
            regmap := (regmap radio)
              \<lparr>regs := kt0913_tuned_regs (band radio) b (frequency f) (regs (regmap radio)),
               trace := trace (regmap radio) @
                 ok_transfers (kt0913_mode_plan (band radio) b (regs (regmap radio) KT0913_REG_AMSYSCFG) @
                               [kt0913_tune_write b (frequency f)])\<rparr>\<rparr>"
  have s: "kt0913_ioctl_vidioc_s_frequency use f radio = (Inr (), radio1)"
    unfolding radio1_def by (rule s_frequency_ok [OF assms(1,2,3,5)])
  have f1: "faults (regmap radio1) = []" using assms(1) by (simp add: radio1_def)
  define f' where "f' = q\<lparr>type := V4L2_TUNER_RADIO,
             frequency := khz_to_v4l2_freq
               (if band radio1 = BAND_AM
                then ucast (regs (regmap radio1) KT0913_REG_AMCHAN) AND KT0913_AMCHAN_AMCHAN_MASK
                else (ucast (regs (regmap radio1) KT0913_REG_TUNE) AND KT0913_TUNE_FMCHAN_MASK) *
                       KT0913_FMCHAN_MUL)\<rparr>"
  have g: "kt0913_ioctl_vidioc_g_frequency q radio1 =
             (Inr f', snd (kt0913_ioctl_vidioc_g_frequency q radio1))"
    unfolding f'_def by (subst (1 2) g_frequency_ok [OF f1 assms(4)]) simp
  have v: "unat (frequency f') =
       unat (frequency f) div (16 * kt0913_band_step b) * (16 * kt0913_band_step b)"
    using round_trip_value [OF assms(5), of "band radio" "regs (regmap radio)"]
    by (cases "b = BAND_AM") (simp_all add: f'_def radio1_def)
  have al: "frequency f' = frequency f" if "unat (frequency f) mod (16 * kt0913_band_step b) = 0"
  proof -
    from that have "unat (frequency f) div (16 * kt0913_band_step b) * (16 * kt0913_band_step b) =
        unat (frequency f)"
      by (simp add: mod_0_imp_dvd)
    with v have "unat (frequency f') = unat (frequency f)" by simp
    then show ?thesis by (simp add: word_unat_eq_iff)
  qed
  show ?thesis
  proof (intro exI conjI impI)
    show "kt0913_ioctl_vidioc_s_frequency use f radio = (Inr (), radio1)" by (rule s)
    show "kt0913_ioctl_vidioc_g_frequency q radio1 =
            (Inr f', snd (kt0913_ioctl_vidioc_g_frequency q radio1))" by (rule g)
    show "unat (frequency f') =
            unat (frequency f) div (16 * kt0913_band_step b) * (16 * kt0913_band_step b)"
      by (rule v)
    show "frequency f' = frequency f"
      if "unat (frequency f) mod (16 * kt0913_band_step b) = 0"
      using that by (rule al)
  qed
qed

text \<open>C5 at 98.1 MHz, and at a frequency 20 kHz and 7 sixteenths above it.\<close>

theorem kt0913_frequency_round_trip_witness:
  "kt0913_new_band 0 (98100 * 16) = Inr BAND_FM \<and> kt0913_new_band 0 (98120 * 16 + 7) = Inr BAND_FM \<and>
   (\<exists>radio1 radio2 f'.
     kt0913_ioctl_vidioc_s_frequency 0
       \<lparr>tuner = 0, type = V4L2_TUNER_RADIO, frequency = 98100 * 16\<rparr> example_radio = (Inr (), radio1) \<and>
     kt0913_ioctl_vidioc_g_frequency \<lparr>tuner = 0, type = 0, frequency = 0\<rparr> radio1 = (Inr f', radio2) \<and>
     frequency f' = 98100 * 16) \<and>
   (\<exists>radio1 radio2 f'.
     kt0913_ioctl_vidioc_s_frequency 0
       \<lparr>tuner = 0, type = V4L2_TUNER_RADIO, frequency = 98120 * 16 + 7\<rparr> example_radio = (Inr (), radio1) \<and>
     kt0913_ioctl_vidioc_g_frequency \<lparr>tuner = 0, type = 0, frequency = 0\<rparr> radio1 = (Inr f', radio2) \<and>
     unat (frequency f') = 98100 * 16)"
proof -
  let ?q = "\<lparr>tuner = 0, type = 0, frequency = 0\<rparr> :: v4l2_frequency"
  let ?f1 = "\<lparr>tuner = 0, type = V4L2_TUNER_RADIO, frequency = 98100 * 16\<rparr>"
  let ?f2 = "\<lparr>tuner = 0, type = V4L2_TUNER_RADIO, frequency = 98120 * 16 + 7\<rparr>"
  have e: "faults (regmap example_radio) = []" by (simp add: example_radio_def)
  have b1: "kt0913_new_band 0 (frequency ?f1) = Inr BAND_FM"
    by (simp add: kt0913_new_band_def)
  have b2: "kt0913_new_band 0 (frequency ?f2) = Inr BAND_FM"
    by (simp add: kt0913_new_band_def)
  have t: "tuner ?q = 0" by simp
  from kt0913_frequency_round_trip [OF e _ _ t b1]
  have w1: "\<exists>radio1 radio2 f'.
     kt0913_ioctl_vidioc_s_frequency 0 ?f1 example_radio = (Inr (), radio1) \<and>
     kt0913_ioctl_vidioc_g_frequency ?q radio1 = (Inr f', radio2) \<and>
     frequency f' = 98100 * 16"
    by (auto simp add: kt0913_band_step_def)
  from kt0913_frequency_round_trip [OF e _ _ t b2]
  have w2: "\<exists>radio1 radio2 f'.
     kt0913_ioctl_vidioc_s_frequency 0 ?f2 example_radio = (Inr (), radio1) \<and>
     kt0913_ioctl_vidioc_g_frequency ?q radio1 = (Inr f', radio2) \<and>
     unat (frequency f') = 98100 * 16"
    by (auto simp add: kt0913_band_step_def)
  from b1 b2 w1 w2 show ?thesis by simp
qed

section \<open>The volume control\<close>

lemma volume_bits:
  "(ucast (update_bits_value KT0913_RXCFGA_VOLUME_MASK val orig) :: 16 word) =
     (orig AND NOT 0x1F) OR (ucast val AND 0x1F)"
proof -
  have "(ucast ((ucast orig AND NOT (mask 5)) OR (val AND mask 5)) :: 16 word) =
          (orig AND NOT (mask 5)) OR (ucast val AND mask 5)"
    by (rule bit_word_eqI) (auto simp add: bit_simps)
  then show ?thesis by (simp add: update_bits_value_def mask_eq_exp_minus_1)
qed

text \<open>
  C7, as stated, fails: the value 2 is outside the range of the control, and the volume
  control neither rejects it nor holds back the write. Its field is \<open>2 / 2 + 31 = 32\<close>,
  whose low five bits are 0, and a register that reads 0x881F is written as 0x8800.
\<close>

theorem kt0913_set_volume_counterexample:
  "\<not> kt0913_volume_in_range 2 \<and>
   kt0913_s_ctrl V4L2_CID_AUDIO_VOLUME 2 (with_reg KT0913_REG_RXCFG 0x881F example_radio) =
     (Inr (), example_radio\<lparr>regmap := (regmap example_radio)
        \<lparr>regs := (regs (regmap example_radio))(KT0913_REG_RXCFG := 0x8800),
         trace := [(Bus_read KT0913_REG_RXCFG, None), (Bus_write KT0913_REG_RXCFG 0x8800, None)]\<rparr>\<rparr>)"
  by (simp add: kt0913_volume_in_range_def word_sle_eq kt0913_s_ctrl_def kt0913_set_volume_def
      dev_update_bits_ok with_reg_def example_radio_def update_bits_plan_def update_bits_value_def
      kt0913_volume_field_def s32_div_def)

text \<open>
  C7, amended. The volume control does not check its value. On a transport that does not
  fail it succeeds for every value: it reads the RXCFG register and leaves it with the low
  five bits of \<open>volume / 2 + 31\<close> in its volume field, the other bits unchanged. When
  it fails, the error is the one of the last transfer it issued, never one of its own.
\<close>

theorem kt0913_set_volume_unchecked:
  "(faults (regmap radio) = [] \<longrightarrow>
      kt0913_s_ctrl V4L2_CID_AUDIO_VOLUME volume radio =
        (Inr (),
         radio\<lparr>regmap := (regmap radio)
           \<lparr>regs := (regs (regmap radio))(KT0913_REG_RXCFG :=
                      (regs (regmap radio) KT0913_REG_RXCFG AND NOT 0x1F) OR
                      (ucast (kt0913_volume_field volume) AND 0x1F)),
            trace := trace (regmap radio) @
                     ok_transfers (update_bits_plan KT0913_REG_RXCFG KT0913_RXCFGA_VOLUME_MASK
                        (kt0913_volume_field volume) (regs (regmap radio) KT0913_REG_RXCFG))\<rparr>\<rparr>)) \<and>
   (\<forall>e radio'. kt0913_s_ctrl V4L2_CID_AUDIO_VOLUME volume radio = (Inl e, radio') \<longrightarrow>
      (\<exists>ts. trace (regmap radio') = trace (regmap radio) @ ts \<and> ts \<noteq> [] \<and>
            snd (last ts) = Some e))"
proof (intro conjI impI allI)
  assume "faults (regmap radio) = []"
  then show "kt0913_s_ctrl V4L2_CID_AUDIO_VOLUME volume radio =
        (Inr (),
         radio\<lparr>regmap := (regmap radio)
           \<lparr>regs := (regs (regmap radio))(KT0913_REG_RXCFG :=
                      (regs (regmap radio) KT0913_REG_RXCFG AND NOT 0x1F) OR
                      (ucast (kt0913_volume_field volume) AND 0x1F)),
            trace := trace (regmap radio) @
                     ok_transfers (update_bits_plan KT0913_REG_RXCFG KT0913_RXCFGA_VOLUME_MASK
                        (kt0913_volume_field volume) (regs (regmap radio) KT0913_REG_RXCFG))\<rparr>\<rparr>)"
    by (simp add: kt0913_s_ctrl_def kt0913_set_volume_def dev_update_bits_ok volume_bits)
next
  fix e radio'
  assume a: "kt0913_s_ctrl V4L2_CID_AUDIO_VOLUME volume radio = (Inl e, radio')"
  let ?plan = "update_bits_plan KT0913_REG_RXCFG KT0913_RXCFGA_VOLUME_MASK
                 (kt0913_volume_field volume) (regs (regmap radio) KT0913_REG_RXCFG)"
  have "contract regmap (kt0913_set_volume volume) radio ?plan
          ((regs (regmap radio))(KT0913_REG_RXCFG :=
             ucast (update_bits_value KT0913_RXCFGA_VOLUME_MASK (kt0913_volume_field volume)
                      (regs (regmap radio) KT0913_REG_RXCFG))))"
    unfolding kt0913_set_volume_def
    by (rule contract_dev_update_bits) simp_all
  with a obtain ts where ts: "trace (regmap radio') = trace (regmap radio) @ ts"
    and i: "issues ?plan (Inl e :: errno + unit) ts"
    by (auto simp add: contract_def kt0913_s_ctrl_def)
  from i obtain pre op where "ts = ok_transfers pre @ [(op, Some e)]"
    by (auto simp add: issues_Inl_iff)
  with ts show "\<exists>ts. trace (regmap radio') = trace (regmap radio) @ ts \<and> ts \<noteq> [] \<and>
            snd (last ts) = Some e"
    by auto
qed

text \<open>C7, amended, at the value -62, one step below the range of the control.\<close>

theorem kt0913_set_volume_unchecked_witness:
  "faults (regmap (with_reg KT0913_REG_RXCFG 0x881F example_radio)) = [] \<and>
   \<not> kt0913_volume_in_range (- 62) \<and>
   fst (kt0913_s_ctrl V4L2_CID_AUDIO_VOLUME (- 62) (with_reg KT0913_REG_RXCFG 0x881F example_radio)) =
     Inr () \<and>
   regs (regmap (snd (kt0913_s_ctrl V4L2_CID_AUDIO_VOLUME (- 62)
     (with_reg KT0913_REG_RXCFG 0x881F example_radio)))) KT0913_REG_RXCFG = 0x8800"
proof -
  let ?r = "with_reg KT0913_REG_RXCFG 0x881F example_radio"
  have f: "faults (regmap ?r) = []" by (simp add: with_reg_def example_radio_def)
  have n: "\<not> kt0913_volume_in_range (- 62)"
    by (simp add: kt0913_volume_in_range_def word_sle_eq)
  from kt0913_set_volume_unchecked [of ?r "- 62", THEN conjunct1, rule_format, OF f] f n
  show ?thesis
    by (simp add: with_reg_def example_radio_def kt0913_volume_field_def s32_div_def)
qed

section \<open>The signal strength\<close>

lemma rssi_field_le:
  fixes reg msk :: "32 word"
  shows "drop_bit n (reg AND msk) \<le> drop_bit n msk"
  by (simp add: drop_bit_and word_and_le1)

lemma rssi_scale_value:
  fixes raw :: "32 word"
  assumes "raw \<le> 31"
  shows "sint (s32_div (raw * 65535) 31) = uint raw * 65535 div 31"
proof -
  from assms have u: "uint raw \<le> 31" by (simp add: word_le_def)
  have m: "uint (raw * 65535) = uint raw * 65535"
    using u by (simp add: uint_mult_small)
  have mb: "uint (raw * 65535) < 2147483648" using u m by simp
  have eq: "s32_div (raw * 65535) 31 = (raw * 65535) div 31"
    using mb by (simp add: s32_div_pos)
  have ud: "uint (s32_div (raw * 65535) 31) = uint raw * 65535 div 31"
    by (simp add: eq uint_div m)
  have "uint raw * 65535 div 31 \<le> 31 * 65535 div 31"
    using u by (intro zdiv_mono1) simp_all
  then have "uint (s32_div (raw * 65535) 31) < 2147483648"
    using ud by simp
  then have "sint (s32_div (raw * 65535) 31) = uint (s32_div (raw * 65535) 31)"
    by (rule sint_eq_uint)
  with ud show ?thesis by simp
qed

text \<open>
  C8, as stated, fails at the raw value 15: \<open>15 * 65535 = 983025\<close>, and
  \<open>983025 div 31 = 31710\<close>, not 31705, for the FM and for the AM decoder.
\<close>

theorem kt0913_rssi_raw_15_counterexample:
  "drop_bit KT0913_STATUSA_FMRSSI_SHIFT ((0x78 :: 32 word) AND KT0913_STATUSA_FMRSSI_MASK) = 15 \<and>
   fst (kt0913_get_fm_rssi (with_reg KT0913_REG_STATUSA 0x78 example_radio)) = Inr 31710 \<and>
   drop_bit KT0913_AMSTATUSA_AMRSSI_SHIFT ((0x0F00 :: 32 word) AND KT0913_AMSTATUSA_AMRSSI_MASK) = 15 \<and>
   fst (kt0913_get_am_rssi (with_reg KT0913_REG_AMSTATUSA 0x0F00 example_radio)) = Inr 31710 \<and>
   (31710 :: 32 word) \<noteq> 31705"
  by (simp add: kt0913_get_fm_rssi_def kt0913_get_am_rssi_def dev_read_ok with_reg_def
      example_radio_def s32_div_def)

text \<open>
  C8, amended. The signal strength is \<open>raw * 65535 div 31\<close> of the 5-bit raw field
  (FM: mask 0xF8 shifted by 3 in STATUSA; AM: mask 0x1F00 shifted by 8 in AMSTATUSA), no
  step of the computation overflowing: raw 0 gives 0, raw 15 gives 31710 and raw 31 gives
  65535, for both decoders.
\<close>

theorem kt0913_rssi_scaling:
  assumes "faults (regmap radio) = []"
    and "fm_raw = drop_bit KT0913_STATUSA_FMRSSI_SHIFT
           (ucast (regs (regmap radio) KT0913_REG_STATUSA) AND KT0913_STATUSA_FMRSSI_MASK)"
    and "am_raw = drop_bit KT0913_AMSTATUSA_AMRSSI_SHIFT
           (ucast (regs (regmap radio) KT0913_REG_AMSTATUSA) AND KT0913_AMSTATUSA_AMRSSI_MASK)"
  shows "fm_raw \<le> 31 \<and> am_raw \<le> 31 \<and>
     (\<exists>fm am. fst (kt0913_get_fm_rssi radio) = Inr fm \<and> fst (kt0913_get_am_rssi radio) = Inr am \<and>
        sint fm = uint fm_raw * 65535 div 31 \<and> sint am = uint am_raw * 65535 div 31 \<and>
        (fm_raw = 0 \<longrightarrow> fm = 0) \<and> (fm_raw = 15 \<longrightarrow> fm = 31710) \<and> (fm_raw = 31 \<longrightarrow> fm = 65535) \<and>
        (am_raw = 0 \<longrightarrow> am = 0) \<and> (am_raw = 15 \<longrightarrow> am = 31710) \<and> (am_raw = 31 \<longrightarrow> am = 65535))"
proof -
  define fm where "fm = s32_div (fm_raw * 65535) 31"
  define am where "am = s32_div (am_raw * 65535) 31"
  have gf: "fst (kt0913_get_fm_rssi radio) = Inr fm"
    using assms(1) by (simp add: kt0913_get_fm_rssi_def dev_read_ok fm_def assms(2) Let_def)
  have ga: "fst (kt0913_get_am_rssi radio) = Inr am"
    using assms(1) by (simp add: kt0913_get_am_rssi_def dev_read_ok am_def assms(3) Let_def)
  have lf: "fm_raw \<le> 31"
    using rssi_field_le [of KT0913_STATUSA_FMRSSI_SHIFT _ KT0913_STATUSA_FMRSSI_MASK]
    by (simp add: assms(2))
  have la: "am_raw \<le> 31"
    using rssi_field_le [of KT0913_AMSTATUSA_AMRSSI_SHIFT _ KT0913_AMSTATUSA_AMRSSI_MASK]
    by (simp add: assms(3))
  have vf: "sint fm = uint fm_raw * 65535 div 31"
    unfolding fm_def by (rule rssi_scale_value [OF lf])
  have va: "sint am = uint am_raw * 65535 div 31"
    unfolding am_def by (rule rssi_scale_value [OF la])
  have pf: "(fm_raw = 0 \<longrightarrow> fm = 0) \<and> (fm_raw = 15 \<longrightarrow> fm = 31710) \<and> (fm_raw = 31 \<longrightarrow> fm = 65535)"
    using vf by (auto intro!: signed_word_eqI)
  have pa: "(am_raw = 0 \<longrightarrow> am = 0) \<and> (am_raw = 15 \<longrightarrow> am = 31710) \<and> (am_raw = 31 \<longrightarrow> am = 65535)"
    using va by (auto intro!: signed_word_eqI)
  from gf ga lf la vf va pf pa show ?thesis by blast
qed

text \<open>C8, amended, on a chip that reports the raw values 15 (FM) and 31 (AM).\<close>

theorem kt0913_rssi_scaling_witness:
  "faults (regmap (with_reg KT0913_REG_STATUSA 0x78
     (with_reg KT0913_REG_AMSTATUSA 0x1F00 example_radio))) = [] \<and>
   fst (kt0913_get_fm_rssi (with_reg KT0913_REG_STATUSA 0x78
          (with_reg KT0913_REG_AMSTATUSA 0x1F00 example_radio))) = Inr 31710 \<and>
   fst (kt0913_get_am_rssi (with_reg KT0913_REG_STATUSA 0x78
          (with_reg KT0913_REG_AMSTATUSA 0x1F00 example_radio))) = Inr 65535"
proof -
  let ?r = "with_reg KT0913_REG_STATUSA 0x78 (with_reg KT0913_REG_AMSTATUSA 0x1F00 example_radio)"
  have f: "faults (regmap ?r) = []" by (simp add: with_reg_def example_radio_def)
  have rf: "(15 :: 32 word) = drop_bit KT0913_STATUSA_FMRSSI_SHIFT
           (ucast (regs (regmap ?r) KT0913_REG_STATUSA) AND KT0913_STATUSA_FMRSSI_MASK)"
    by (simp add: with_reg_def example_radio_def)
  have ra: "(31 :: 32 word) = drop_bit KT0913_AMSTATUSA_AMRSSI_SHIFT
           (ucast (regs (regmap ?r) KT0913_REG_AMSTATUSA) AND KT0913_AMSTATUSA_AMRSSI_MASK)"
    by (simp add: with_reg_def example_radio_def)
  from kt0913_rssi_scaling [OF f rf ra] f show ?thesis by auto
qed

section \<open>The order of the initialisation\<close>

lemma init_ok:
  assumes "faults (regmap radio) = []"
  shows "fst (kt0913_init use radio) = Inr ()"
  using assms
  by (simp add: kt0913_init_def bind_ret_def return_ret_def kt0913_set_mute_def
      dev_update_bits_ok via_regmap_def regmap_multi_reg_write_ok init_table_valid
      regmap_update_bits_ok)

text \<open>
  C9. The initialisation issues the transfers of \<open>kt0913_init_plan\<close> in their order:
  the table of defaults, the anti-pop level, the reference clock, the campus band bit when
  enabled, mute on. When it succeeds it has issued all of them. When it fails with an error
  \<open>e\<close> it has issued an initial part of them, of which the last failed with \<open>e\<close>
  and all the others succeeded, and nothing after it. On a transport that does not fail it
  succeeds.
\<close>

theorem kt0913_init_order:
  assumes "kt0913_init use radio = (r, radio')"
  shows "(\<exists>ts. trace (regmap radio') = trace (regmap radio) @ ts \<and>
               issues (kt0913_init_plan use (audio_anti_pop radio) (refclock_val radio)) r ts) \<and>
         (faults (regmap radio) = [] \<longrightarrow> r = Inr ())"
proof -
  from contract_init [of use radio] assms
  have "\<exists>ts. trace (regmap radio') = trace (regmap radio) @ ts \<and>
               issues (kt0913_init_plan use (audio_anti_pop radio) (refclock_val radio)) r ts"
    by (auto simp add: contract_def)
  moreover have "r = Inr ()" if "faults (regmap radio) = []"
    using init_ok [OF that, of use] assms by simp
  ultimately show ?thesis by blast
qed

lemma init_plan_default:
  "kt0913_init_plan 0 0 0 =
     [Bus_write KT0913_REG_RXCFG 0x881F, Bus_write KT0913_REG_SEEK 0x000B,
      Bus_write KT0913_REG_DSPCFGA 0x1000, Bus_write KT0913_REG_LOCFGA 0x0100,
      Bus_write KT0913_REG_LOCFGC 0x0024, Bus_write KT0913_REG_AMSYSCFG 0x0002,
      Bus_write KT0913_REG_AMCHAN 0x01F8, Bus_write KT0913_REG_GPIOCFG 0x0000,
      Bus_write KT0913_REG_AMDSP 0xAFC4, Bus_write KT0913_REG_SOFTMUTE 0x0010,
      Bus_write KT0913_REG_AMCFG 0x1401, Bus_write KT0913_REG_AMCFG 0x4050,
      Bus_write KT0913_REG_TUNE 0x86B8, Bus_write KT0913_REG_VOLUME 0xE080,
      Bus_read KT0913_REG_VOLUME,
      Bus_read KT0913_REG_AMSYSCFG,
      Bus_read KT0913_REG_VOLUME, Bus_write KT0913_REG_VOLUME 0xC080]"
  by (simp add: kt0913_init_plan_def kt0913_init_regs_to_defaults_def update_bits_plan_def
      update_bits_value_def)

lemma init_plan_configured:
  "kt0913_init_plan 1 3 9 =
     [Bus_write KT0913_REG_RXCFG 0x881F, Bus_write KT0913_REG_SEEK 0x000B,
      Bus_write KT0913_REG_DSPCFGA 0x1000, Bus_write KT0913_REG_LOCFGA 0x0100,
      Bus_write KT0913_REG_LOCFGC 0x0024, Bus_write KT0913_REG_AMSYSCFG 0x0002,
      Bus_write KT0913_REG_AMCHAN 0x01F8, Bus_write KT0913_REG_GPIOCFG 0x0000,
      Bus_write KT0913_REG_AMDSP 0xAFC4, Bus_write KT0913_REG_SOFTMUTE 0x0010,
      Bus_write KT0913_REG_AMCFG 0x1401, Bus_write KT0913_REG_AMCFG 0x4050,
      Bus_write KT0913_REG_TUNE 0x86B8, Bus_write KT0913_REG_VOLUME 0xE080,
      Bus_read KT0913_REG_VOLUME, Bus_write KT0913_REG_VOLUME 0xE0B0,
      Bus_read KT0913_REG_AMSYSCFG, Bus_write KT0913_REG_AMSYSCFG 0x0902,
      Bus_read KT0913_REG_LOCFGC, Bus_write KT0913_REG_LOCFGC 0x002C,
      Bus_read KT0913_REG_VOLUME, Bus_write KT0913_REG_VOLUME 0xC0B0]"
  by (simp add: kt0913_init_plan_def kt0913_init_regs_to_defaults_def update_bits_plan_def
      update_bits_value_def)

lemma replicate_15:
  "replicate 15 x = [x, x, x, x, x, x, x, x, x, x, x, x, x, x, x]"
  by (simp add: numeral_eq_Suc)

lemma init_read_timeout:
  "kt0913_init 0 (with_faults (replicate 15 None @ [Some ETIMEDOUT]) example_radio) =
     (Inl ETIMEDOUT,
      example_radio\<lparr>regmap := (regmap example_radio)
        \<lparr>regs := table_regs kt0913_init_regs_to_defaults (\<lambda>_. 0),
         trace := ok_transfers (table_writes kt0913_init_regs_to_defaults) @
                  [(Bus_read KT0913_REG_VOLUME, None),
                   (Bus_read KT0913_REG_AMSYSCFG, Some ETIMEDOUT)]\<rparr>\<rparr>)"
  by (simp add: replicate_15 kt0913_init_def kt0913_init_regs_to_defaults_def kt0913_set_mute_def
      via_regmap_def regmap_update_bits_def regmap_read_def regmap_write_def bus_read_def
      bus_write_def bus_outcome_def bind_ret_def return_ret_def Let_def with_faults_def
      example_radio_def)

text \<open>
  C9 on a configured device (campus band, anti-pop level 3, reference clock 9), and on a
  transport whose sixteenth transfer times out.
\<close>

theorem kt0913_init_order_witness:
  "fst (kt0913_init 1 (example_radio\<lparr>audio_anti_pop := 3, refclock_val := 9\<rparr>)) = Inr () \<and>
   trace (regmap (snd (kt0913_init 1 (example_radio\<lparr>audio_anti_pop := 3, refclock_val := 9\<rparr>)))) =
     ok_transfers (kt0913_init_plan 1 3 9) \<and>
   fst (kt0913_init 0 (with_faults (replicate 15 None @ [Some ETIMEDOUT]) example_radio)) =
     Inl ETIMEDOUT \<and>
   issues (kt0913_init_plan 0 0 0) (Inl ETIMEDOUT :: errno + unit)
     (trace (regmap (snd (kt0913_init 0
        (with_faults (replicate 15 None @ [Some ETIMEDOUT]) example_radio))))) \<and>
   length (trace (regmap (snd (kt0913_init 0
        (with_faults (replicate 15 None @ [Some ETIMEDOUT]) example_radio))))) = 16"
proof -
  let ?a = "example_radio\<lparr>audio_anti_pop := 3, refclock_val := 9\<rparr>"
  let ?b = "with_faults (replicate 15 None @ [Some ETIMEDOUT]) example_radio"
  have fa: "faults (regmap ?a) = []" by (simp add: example_radio_def)
  have ta: "trace (regmap ?a) = []" by (simp add: example_radio_def)
  have pa: "audio_anti_pop ?a = 3" "refclock_val ?a = 9" by simp_all
  from kt0913_init_order [OF surjective_pairing, of 1 ?a] fa
  have ra: "fst (kt0913_init 1 ?a) = Inr ()" by blast
  from kt0913_init_order [OF surjective_pairing, of 1 ?a]
  obtain ts where "trace (regmap (snd (kt0913_init 1 ?a))) = trace (regmap ?a) @ ts"
    and "issues (kt0913_init_plan 1 (audio_anti_pop ?a) (refclock_val ?a)) (fst (kt0913_init 1 ?a)) ts"
    by blast
  then have wa: "trace (regmap (snd (kt0913_init 1 ?a))) = ok_transfers (kt0913_init_plan 1 3 9)"
    by (simp only: ra ta pa issues_Inr append_Nil)
  have rb: "fst (kt0913_init 0 ?b) = Inl ETIMEDOUT"
    by (simp only: init_read_timeout fst_conv)
  have tb: "trace (regmap ?b) = []" by (simp add: with_faults_def example_radio_def)
  have pb: "audio_anti_pop ?b = 0" "refclock_val ?b = 0"
    by (simp_all add: with_faults_def example_radio_def)
  from kt0913_init_order [OF surjective_pairing, of 0 ?b]
  obtain ts where "trace (regmap (snd (kt0913_init 0 ?b))) = trace (regmap ?b) @ ts"
    and "issues (kt0913_init_plan 0 (audio_anti_pop ?b) (refclock_val ?b)) (fst (kt0913_init 0 ?b)) ts"
    by blast
  then have ib: "issues (kt0913_init_plan 0 0 0) (Inl ETIMEDOUT :: errno + unit)
          (trace (regmap (snd (kt0913_init 0 ?b))))"
    by (simp only: rb tb pb append_Nil)
  have lb: "length (trace (regmap (snd (kt0913_init 0 ?b)))) = 16"
    by (simp add: init_read_timeout kt0913_init_regs_to_defaults_def)
  from ra wa rb ib lb show ?thesis by (simp only: simp_thms)
qed

end
